theory Spec2Isabelle
  imports Main
begin

section \<open>JavaScript runtime values used by the reminder engine\<close>

text \<open>
  A \<^verbatim>\<open>Date\<close> is its number of milliseconds since the epoch, an integer, as
  \<^verbatim>\<open>Date.now()\<close> returns it. A time zone is the function that gives, for an instant,
  the zone's offset from UTC in minutes (\<open>-480\<close> for PST, \<open>-420\<close> for PDT); the zone
  database itself belongs to the runtime and to \<^verbatim>\<open>date-fns-tz\<close>, so the functions below
  take it as an argument. Calendar days are counted from 1970-01-01.
\<close>

type_synonym instant = int
type_synonym zone = "instant \<Rightarrow> int"

definition MS_PER_DAY :: int where
  "MS_PER_DAY = 1000 * 60 * 60 * 24"

definition utcDay :: "instant \<Rightarrow> int" where
  "utcDay t = t div MS_PER_DAY"

text \<open>\<^verbatim>\<open>toZonedTime(date, TIMEZONE)\<close>: the instant whose UTC fields read the zone's wall clock.\<close>

definition toZonedTime :: "zone \<Rightarrow> instant \<Rightarrow> instant" where
  "toZonedTime tz t = t + tz t * 60000"

definition zonedDay :: "zone \<Rightarrow> instant \<Rightarrow> int" where
  "zonedDay tz t = toZonedTime tz t div MS_PER_DAY"

text \<open>Decimal rendering of a number, \<^verbatim>\<open>String(n)\<close>, and \<^verbatim>\<open>padStart\<close>.\<close>

definition digit_char :: "nat \<Rightarrow> char" where
  "digit_char n = ''0123456789'' ! n"

fun digits :: "nat \<Rightarrow> string" where
  "digits n = (if n < 10 then [digit_char n] else digits (n div 10) @ [digit_char (n mod 10)])"

declare digits.simps [simp del]

definition toString :: "int \<Rightarrow> string" where
  "toString i = (if i < 0 then CHR ''-'' # digits (nat (- i)) else digits (nat i))"

definition padStart :: "nat \<Rightarrow> char \<Rightarrow> string \<Rightarrow> string" where
  "padStart n c s = replicate (n - length s) c @ s"

text \<open>
  The proleptic Gregorian calendar date (year, month, day) of a day number, as the
  runtime computes it for \<^verbatim>\<open>toISOString\<close> and \<^verbatim>\<open>formatInTimeZone\<close>.
\<close>

definition civil_from_days :: "int \<Rightarrow> int \<times> int \<times> int" where
  "civil_from_days z0 =
    (let z = z0 + 719468;
         era = z div 146097;
         doe = z mod 146097;
         yoe = (doe - doe div 1460 + doe div 36524 - doe div 146096) div 365;
         doy = doe - (365 * yoe + yoe div 4 - yoe div 100);
         mp = (5 * doy + 2) div 153;
         d = doy - (153 * mp + 2) div 5 + 1;
         m = (if mp < 10 then mp + 3 else mp - 9);
         y = yoe + era * 400 + (if m \<le> 2 then 1 else 0)
     in (y, m, d))"

text \<open>
  The text \<^verbatim>\<open>yyyy-MM-dd\<close> of a day number. For the years 0000 to 9999 this is both
  \<^verbatim>\<open>date.toISOString().split('T')[0]\<close> (on the UTC day) and
  \<^verbatim>\<open>formatInTimeZone(date, TIMEZONE, 'yyyy-MM-dd')\<close> (on the zone's day).
\<close>

definition yyyy_MM_dd :: "int \<Rightarrow> string" where
  "yyyy_MM_dd day =
    (case civil_from_days day of (y, m, d) \<Rightarrow>
       padStart 4 CHR ''0'' (toString y) @ ''-'' @
       padStart 2 CHR ''0'' (toString m) @ ''-'' @
       padStart 2 CHR ''0'' (toString d))"

definition toISODate :: "instant \<Rightarrow> string" where
  "toISODate date = yyyy_MM_dd (utcDay date)"

text \<open>
  The exceptions the code below can raise: a \<^verbatim>\<open>TypeError\<close>, when it calls a method a
  value does not have (\<^verbatim>\<open>x.includes is not a function\<close>) or iterates a value that is not
  iterable; and an \<^verbatim>\<open>Error\<close> it throws itself, with its message. A function that can
  raise returns \<open>Inl\<close> of the exception or \<open>Inr\<close> of its value.
\<close>

datatype error = TypeError | Error string

text \<open>
  The property names every plain object inherits from \<^verbatim>\<open>Object.prototype\<close>. Reading
  \<^verbatim>\<open>obj[key]\<close> on an object literal or on the result of \<^verbatim>\<open>JSON.parse\<close> gives the
  object's own value when \<open>key\<close> is one of its keys; otherwise, for these names, the
  inherited function (for \<^verbatim>\<open>__proto__\<close> the prototype itself), which is truthy and has
  neither \<^verbatim>\<open>includes\<close> nor \<^verbatim>\<open>push\<close>; and \<^verbatim>\<open>undefined\<close> for every other name.
\<close>

definition objectPrototypeKeys :: "string list" where
  "objectPrototypeKeys =
    [''constructor'', ''__defineGetter__'', ''__defineSetter__'', ''hasOwnProperty'',
     ''__lookupGetter__'', ''__lookupSetter__'', ''isPrototypeOf'', ''propertyIsEnumerable'',
     ''toString'', ''valueOf'', ''__proto__'', ''toLocaleString'']"

section \<open>Data model\<close>

record tapering_table =
  day1 :: "string list"
  day2 :: "string list"
  day3plus :: "string list"

record medication =
  med_id :: string
  name :: string
  dose :: string
  frequency :: string
  location :: string
  med_notes :: "string option"
  startDate :: "instant option"
  endDate :: "instant option"
  active :: bool
  asNeeded :: bool
  tapering :: "tapering_table option"

text \<open>
  A reminder as \<^verbatim>\<open>getIndividualReminders\<close> builds it. The field \<open>rem_id\<close> is the
  source's \<^verbatim>\<open>id\<close>; \<open>sentAt\<close> is \<^verbatim>\<open>null\<close> (\<open>None\<close>) until the trigger handler sets it.
\<close>

record reminder =
  rem_id :: string
  medicationId :: string
  medication :: medication
  slot :: string
  dayNumber :: int
  scheduledTime :: string
  message :: string
  confirmed :: bool
  sentAt :: "instant option"

section \<open>Storage (src/lib/storage.js)\<close>

text \<open>
  The module in its latest revision among the sources: the one that builds its date keys
  with \<^verbatim>\<open>formatInTimeZone\<close> in the zone \<^verbatim>\<open>America/Los_Angeles\<close> and returns
  \<^verbatim>\<open>confirmedAt\<close> from \<^verbatim>\<open>confirmById\<close>. Every function takes the store and gives it
  back; \<^verbatim>\<open>Date.now()\<close> is the argument \<open>now\<close>. Calls of the store are taken to answer;
  a store that cannot be reached is outside the model. The 24 hour expiry of the pending
  list is not part of the state; the list is what \<^verbatim>\<open>getPendingReminders\<close> reads.
\<close>

text \<open>
  The medication stored with a confirmation: the reminder's own snapshot, or the stub
  \<^verbatim>\<open>{ name: medicationId }\<close> that \<^verbatim>\<open>confirmMedication\<close> falls back to.
\<close>

datatype snapshot = Snapshot medication | NameOnly string

record confirmation =
  c_confirmedAt :: instant
  c_medicationId :: string
  c_slot :: string
  c_medication :: snapshot
  c_early :: bool

text \<open>
  A key of the Redis store that \<^verbatim>\<open>setnx\<close> wrote: its value and, once \<^verbatim>\<open>expire\<close> ran,
  the instant at which Redis drops it.
\<close>

record kv_entry =
  kv_value :: instant
  kv_expires :: "instant option"

text \<open>
  The state the module works on. \<open>upstash\<close> says whether \<^verbatim>\<open>getRedis()\<close> returns a client.
  \<open>pending\<close> is the list under \<^verbatim>\<open>PENDING_KEY\<close>, or \<^verbatim>\<open>memoryStore.pending\<close>;
  \<open>confirmedKV\<close> and \<open>sentKV\<close> are the Redis keys under \<^verbatim>\<open>yuki:confirmed:\<close> and
  \<^verbatim>\<open>yuki:sent:\<close>; \<open>confirmedMem\<close> and \<open>sentSlots\<close> are the sets of the in-memory fallback.
\<close>

record store =
  upstash :: bool
  pending :: "reminder list"
  confirmedKV :: "string \<rightharpoonup> confirmation"
  confirmedMem :: "string set"
  sentKV :: "string \<rightharpoonup> kv_entry"
  sentSlots :: "string set"

definition CONFIRMED_PREFIX :: string where
  "CONFIRMED_PREFIX = ''yuki:confirmed:''"

definition getTodayDateString :: "zone \<Rightarrow> instant \<Rightarrow> string" where
  "getTodayDateString tz date = yyyy_MM_dd (zonedDay tz date)"

definition getPendingReminders :: "store \<Rightarrow> reminder list" where
  "getPendingReminders s = pending s"

definition addPendingReminders :: "store \<Rightarrow> reminder list \<Rightarrow> reminder list \<times> store" where
  "addPendingReminders s reminders =
    (if upstash s then
       (let existing = getPendingReminders s;
            existingIds = set (map rem_id existing);
            newReminders = filter (\<lambda>r. rem_id r \<notin> existingIds) reminders
        in if length newReminders = 0 then (existing, s)
           else (let updated = existing @ newReminders
                 in (updated, s\<lparr>pending := updated\<rparr>)))
     else
       (let existingIds = set (map rem_id (pending s));
            newReminders = filter (\<lambda>r. rem_id r \<notin> existingIds) reminders;
            s' = s\<lparr>pending := pending s @ newReminders\<rparr>
        in (pending s', s')))"

text \<open>
  \<^verbatim>\<open>confirmMedication(medicationId, slot, medication = null)\<close> removes every pending
  entry of that medication and slot and records the confirmation. It returns
  \<^verbatim>\<open>{ confirmed: true, remaining, confirmedAt }\<close>, here the pair of the last two.
  \<open>now\<close> is \<^verbatim>\<open>Date.now()\<close>.
\<close>

definition confirmMedication ::
  "zone \<Rightarrow> instant \<Rightarrow> store \<Rightarrow> string \<Rightarrow> string \<Rightarrow> medication option
    \<Rightarrow> (nat \<times> instant) \<times> store" where
  "confirmMedication tz now s medId slt med =
    (let key = slt @ ''-'' @ medId;
         confirmedAt = now
     in if upstash s then
          (let pending' = getPendingReminders s;
               reminder = find (\<lambda>r. medicationId r = medId \<and> slot r = slt) pending';
               updated = filter (\<lambda>r. \<not> (medicationId r = medId \<and> slot r = slt)) pending';
               today = getTodayDateString tz now;
               confirmationData =
                 \<lparr>c_confirmedAt = confirmedAt, c_medicationId = medId, c_slot = slt,
                  c_medication =
                    (case med of Some m \<Rightarrow> Snapshot m
                     | None \<Rightarrow>
                        (case reminder of Some r \<Rightarrow> Snapshot (medication r)
                         | None \<Rightarrow> NameOnly medId)),
                  c_early = False\<rparr>
           in ((length updated, confirmedAt),
               s\<lparr>pending := updated,
                 confirmedKV :=
                   (confirmedKV s)(CONFIRMED_PREFIX @ today @ '':'' @ key \<mapsto> confirmationData)\<rparr>))
        else
          (let s' = s\<lparr>pending := filter (\<lambda>r. \<not> (medicationId r = medId \<and> slot r = slt)) (pending s),
                       confirmedMem := insert key (confirmedMem s)\<rparr>
           in ((length (pending s'), confirmedAt), s')))"

text \<open>
  The result of a confirmation: \<^verbatim>\<open>{ confirmed: false, message }\<close>, or
  \<^verbatim>\<open>{ confirmed: true, medication, remaining, confirmedAt }\<close> where \<^verbatim>\<open>confirmedAt\<close> is
  absent from what \<^verbatim>\<open>confirmLatestPending\<close> returns.
\<close>

datatype confirm_result =
  NotConfirmed string
  | Confirmed string nat "instant option"

definition confirmLatestPending :: "zone \<Rightarrow> instant \<Rightarrow> store \<Rightarrow> confirm_result \<times> store" where
  "confirmLatestPending tz now s =
    (case getPendingReminders s of
       [] \<Rightarrow> (NotConfirmed ''No pending medications to confirm'', s)
     | oldest # _ \<Rightarrow>
        (case confirmMedication tz now s (medicationId oldest) (slot oldest) None of
           ((remaining, _), s') \<Rightarrow> (Confirmed (name (medication oldest)) remaining None, s')))"

definition confirmById :: "zone \<Rightarrow> instant \<Rightarrow> store \<Rightarrow> string \<Rightarrow> confirm_result \<times> store" where
  "confirmById tz now s reminderId =
    (let pending' = getPendingReminders s
     in case find (\<lambda>r. rem_id r = reminderId) pending' of
          None \<Rightarrow> (NotConfirmed (''Reminder '' @ reminderId @ '' not found''), s)
        | Some reminder \<Rightarrow>
           (let updated = filter (\<lambda>r. rem_id r \<noteq> reminderId) pending';
                confirmedAt = now;
                s' =
                  (if upstash s then
                     (let today = getTodayDateString tz now;
                          key = slot reminder @ ''-'' @ medicationId reminder;
                          confirmationData =
                            \<lparr>c_confirmedAt = confirmedAt,
                             c_medicationId = medicationId reminder,
                             c_slot = slot reminder,
                             c_medication = Snapshot (medication reminder),
                             c_early = False\<rparr>
                      in s\<lparr>pending := updated,
                           confirmedKV :=
                             (confirmedKV s)(CONFIRMED_PREFIX @ today @ '':'' @ key \<mapsto> confirmationData)\<rparr>)
                   else
                     s\<lparr>pending := updated,
                       confirmedMem :=
                         insert (slot reminder @ ''-'' @ medicationId reminder) (confirmedMem s)\<rparr>)
            in (Confirmed (name (medication reminder)) (length updated) (Some confirmedAt), s')))"

text \<open>
  \<^verbatim>\<open>getRemindersToResend(minutesThreshold)\<close> at the instant \<open>now\<close>. The test
  \<^verbatim>\<open>!r.sentAt\<close> holds for \<^verbatim>\<open>null\<close> and for the number 0.
\<close>

definition getRemindersToResend :: "instant \<Rightarrow> store \<Rightarrow> int \<Rightarrow> reminder list" where
  "getRemindersToResend now s minutesThreshold =
    (let pending' = getPendingReminders s;
         threshold = minutesThreshold * 60 * 1000
     in filter (\<lambda>r. case sentAt r of
                       None \<Rightarrow> False
                     | Some sent \<Rightarrow> if sent = 0 then False else now - sent \<ge> threshold)
               pending')"

text \<open>The default argument \<^verbatim>\<open>minutesThreshold = 30\<close>.\<close>

definition getRemindersToResend_default :: "instant \<Rightarrow> store \<Rightarrow> reminder list" where
  "getRemindersToResend_default now s = getRemindersToResend now s 30"

text \<open>
  Redis as \<^verbatim>\<open>claimSlot\<close> uses it. A key is there while it has no expiry or its expiry lies
  ahead; \<^verbatim>\<open>setnx\<close> writes the key only when it is not there and answers 1 or 0;
  \<^verbatim>\<open>expire\<close> gives a key that is there a lifetime in seconds.
\<close>

definition kv_live :: "instant \<Rightarrow> kv_entry option \<Rightarrow> bool" where
  "kv_live now e =
    (case e of None \<Rightarrow> False
     | Some v \<Rightarrow> (case kv_expires v of None \<Rightarrow> True | Some d \<Rightarrow> now < d))"

definition setnx ::
  "instant \<Rightarrow> (string \<rightharpoonup> kv_entry) \<Rightarrow> string \<Rightarrow> instant \<Rightarrow> int \<times> (string \<rightharpoonup> kv_entry)" where
  "setnx now kv key v =
    (if kv_live now (kv key) then (0, kv)
     else (1, kv(key \<mapsto> \<lparr>kv_value = v, kv_expires = None\<rparr>)))"

definition expire ::
  "instant \<Rightarrow> (string \<rightharpoonup> kv_entry) \<Rightarrow> string \<Rightarrow> int \<Rightarrow> (string \<rightharpoonup> kv_entry)" where
  "expire now kv key seconds =
    (case kv key of
       None \<Rightarrow> kv
     | Some v \<Rightarrow>
        if kv_live now (Some v) then kv(key \<mapsto> v\<lparr>kv_expires := Some (now + seconds * 1000)\<rparr>)
        else kv)"

text \<open>
  \<^verbatim>\<open>claimSlot(slot, date)\<close>, called at the instant \<open>now\<close>. The key is built from the
  zone's calendar date of \<open>date\<close>.
\<close>

definition claimKey :: "zone \<Rightarrow> string \<Rightarrow> instant \<Rightarrow> string" where
  "claimKey tz slt date = ''yuki:sent:'' @ getTodayDateString tz date @ '':'' @ slt"

definition claimSlot :: "zone \<Rightarrow> instant \<Rightarrow> store \<Rightarrow> string \<Rightarrow> instant \<Rightarrow> bool \<times> store" where
  "claimSlot tz now s slt date =
    (let key = claimKey tz slt date
     in if upstash s then
          (case setnx now (sentKV s) key now of
             (claimed, kv) \<Rightarrow>
               (let kv' = (if claimed \<noteq> 0 then expire now kv key 7200 else kv)
                in (claimed = 1, s\<lparr>sentKV := kv'\<rparr>)))
        else if key \<in> sentSlots s then (False, s)
        else (True, s\<lparr>sentSlots := insert key (sentSlots s)\<rparr>))"

text \<open>\<^verbatim>\<open>markRemindersSent(reminderIds)\<close> stamps the listed pending entries with \<open>now\<close>.\<close>

definition markRemindersSent :: "instant \<Rightarrow> store \<Rightarrow> string list \<Rightarrow> reminder list \<times> store" where
  "markRemindersSent now s reminderIds =
    (let updated = map (\<lambda>r. if rem_id r \<in> set reminderIds then r\<lparr>sentAt := Some now\<rparr> else r)
                       (getPendingReminders s)
     in (updated, s\<lparr>pending := updated\<rparr>))"

section \<open>Medication catalog (src/config/medications.js)\<close>

text \<open>
  The module in its latest revision, which reads the catalog from
  \<^verbatim>\<open>medications.json\<close>; the functions take the parsed catalog as an argument.
\<close>

text \<open>
  The parsed \<^verbatim>\<open>medications.json\<close>. Its objects \<^verbatim>\<open>timeSlots\<close> and \<^verbatim>\<open>frequencySlots\<close> are
  lists of key and value, read by key.
\<close>

record config =
  surgeryDate :: instant
  timeSlots :: "(string \<times> string) list"
  frequencySlots :: "(string \<times> string list) list"
  leftEye :: "medication list"
  rightEye :: "medication list"
  oral :: "medication list"

definition getAllMedications :: "config \<Rightarrow> medication list" where
  "getAllMedications cfg = leftEye cfg @ rightEye cfg @ oral cfg"

text \<open>
  \<^verbatim>\<open>getFullYear\<close>, \<^verbatim>\<open>getMonth\<close>, \<^verbatim>\<open>getDate\<close> and \<^verbatim>\<open>new Date(y, m, d, h, 0, 0)\<close> work in
  the zone of the process. That zone is a fixed offset \<open>sys\<close> from UTC, in minutes (0 for
  a process that runs in UTC): \<open>localDay\<close> is the calendar day the three getters describe,
  \<open>localTime\<close> the instant the constructor builds for an hour of that day.
\<close>

definition localDay :: "int \<Rightarrow> instant \<Rightarrow> int" where
  "localDay sys t = (t + sys * 60000) div MS_PER_DAY"

definition localTime :: "int \<Rightarrow> int \<Rightarrow> int \<Rightarrow> instant" where
  "localTime sys day hour = day * MS_PER_DAY + hour * 3600000 - sys * 60000"

text \<open>\<^verbatim>\<open>Math.round(a / b)\<close> for a positive \<open>b\<close>: halves go up.\<close>

definition math_round_div :: "int \<Rightarrow> int \<Rightarrow> int" where
  "math_round_div a b = (2 * a + b) div (2 * b)"

definition getDayNumber :: "int \<Rightarrow> config \<Rightarrow> instant \<Rightarrow> int" where
  "getDayNumber sys cfg date =
    (let surgeryNoon = localTime sys (localDay sys (surgeryDate cfg)) 12;
         checkNoon = localTime sys (localDay sys date) 12;
         diffTime = checkNoon - surgeryNoon;
         diffDays = math_round_div diffTime (1000 * 60 * 60 * 24)
     in diffDays + 1)"

definition getAtropineSlots :: "int \<Rightarrow> config \<Rightarrow> instant \<Rightarrow> string list" where
  "getAtropineSlots sys cfg date =
    (let dayNum = getDayNumber sys cfg date
     in case find (\<lambda>m. med_id m = ''atropine'') (leftEye cfg) of
          None \<Rightarrow> []
        | Some atropine \<Rightarrow>
           (case tapering atropine of
              None \<Rightarrow> []
            | Some t \<Rightarrow>
               if dayNum = 1 then day1 t
               else if dayNum = 2 then day2 t
               else day3plus t))"

section \<open>Scheduler (src/lib/scheduler.js)\<close>

text \<open>
  The module in its latest revision: six slots, and custom schedules merged over the
  catalog entries.
\<close>

text \<open>
  The custom schedule of a medication, as \<^verbatim>\<open>updateMedicationSchedule\<close> stores it: each of
  \<^verbatim>\<open>frequency\<close>, \<^verbatim>\<open>timeSlots\<close>, \<^verbatim>\<open>active\<close>, \<^verbatim>\<open>notes\<close> is there or not (\<^verbatim>\<open>notes\<close> may be
  there and \<^verbatim>\<open>null\<close>), and \<^verbatim>\<open>updatedAt\<close> always is.
\<close>

record customSchedule =
  cs_frequency :: "string option"
  cs_timeSlots :: "string list option"
  cs_active :: "bool option"
  cs_notes :: "string option option"
  cs_updatedAt :: instant

text \<open>
  The six names \<^verbatim>\<open>getCurrentTimeSlot\<close> can return, and the string each is in the
  source. \<^verbatim>\<open>getStaggeredTime\<close>, private to the module, is called with these names only;
  everywhere else a slot is a string.
\<close>

datatype slot_name = MORNING | LATE_MORNING | MIDDAY | EVENING | LATE_NIGHT | NIGHT

fun slot_str :: "slot_name \<Rightarrow> string" where
  "slot_str MORNING = ''MORNING''"
| "slot_str LATE_MORNING = ''LATE_MORNING''"
| "slot_str MIDDAY = ''MIDDAY''"
| "slot_str EVENING = ''EVENING''"
| "slot_str LATE_NIGHT = ''LATE_NIGHT''"
| "slot_str NIGHT = ''NIGHT''"

text \<open>Minutes since midnight on the wall clock of the zone \<open>tz\<close>.\<close>

definition currentTime :: "zone \<Rightarrow> instant \<Rightarrow> int" where
  "currentTime tz date =
    (let localDate = toZonedTime tz date;
         hours = (localDate div 3600000) mod 24;
         minutes = (localDate div 60000) mod 60
     in hours * 60 + minutes)"

definition slotWindows :: "(slot_name \<times> int) list" where
  "slotWindows =
    [(MORNING, 8 * 60 + 30), (LATE_MORNING, 11 * 60), (MIDDAY, 14 * 60),
     (EVENING, 19 * 60), (LATE_NIGHT, 22 * 60 + 30), (NIGHT, 24 * 60)]"

definition getCurrentTimeSlot :: "zone \<Rightarrow> instant \<Rightarrow> slot_name option" where
  "getCurrentTimeSlot tz date =
    (let now = currentTime tz date
     in case find (\<lambda>(n, time). now \<ge> time \<and> now < time + 15) slotWindows of
          Some (n, time) \<Rightarrow> Some n
        | None \<Rightarrow> if now \<ge> 0 \<and> now < 15 then Some NIGHT else None)"

text \<open>\<^verbatim>\<open>toDateOnly(d)\<close>: midnight, in the zone of the process, of the day of \<open>d\<close>.\<close>

definition toDateOnly :: "int \<Rightarrow> instant \<Rightarrow> instant" where
  "toDateOnly sys d = localTime sys (localDay sys d) 0"

text \<open>
  \<^verbatim>\<open>isMedicationDue(med, slot, date)\<close>. \<open>sched\<close> is what
  \<^verbatim>\<open>getMedicationScheduleWithCache\<close> answers for a medication id. The spread
  \<^verbatim>\<open>{ ...med, ...(customSchedule || {}) }\<close> takes \<^verbatim>\<open>frequency\<close>, \<^verbatim>\<open>active\<close> and
  \<^verbatim>\<open>notes\<close> from the custom schedule where it has them; the \<^verbatim>\<open>timeSlots\<close> and
  \<^verbatim>\<open>updatedAt\<close> it copies are not fields of a medication and nothing reads them
  afterwards. \<^verbatim>\<open>FREQUENCY_SLOTS[frequency]\<close> is read from the parsed catalog, a plain
  object: for a frequency that is not one of its keys but names a property of
  \<^verbatim>\<open>Object.prototype\<close> the value is truthy and \<^verbatim>\<open>slots.includes(slot)\<close> raises a
  \<^verbatim>\<open>TypeError\<close>, which rejects the promise the function returns.
\<close>

definition isMedicationDue ::
  "int \<Rightarrow> config \<Rightarrow> (string \<Rightarrow> customSchedule option) \<Rightarrow> medication \<Rightarrow> string \<Rightarrow> instant
    \<Rightarrow> error + bool" where
  "isMedicationDue sys cfg sched med slt date =
    (let effectiveSchedule =
           (case sched (med_id med) of
              None \<Rightarrow> med
            | Some c \<Rightarrow>
               med\<lparr>frequency := (case cs_frequency c of Some f \<Rightarrow> f | None \<Rightarrow> frequency med),
                   active := (case cs_active c of Some a \<Rightarrow> a | None \<Rightarrow> active med),
                   med_notes := (case cs_notes c of Some n \<Rightarrow> n | None \<Rightarrow> med_notes med)\<rparr>)
     in if active effectiveSchedule = False then Inr False
        else
          (let checkDate = toDateOnly sys date
           in if (case startDate effectiveSchedule of
                    None \<Rightarrow> False | Some sd \<Rightarrow> toDateOnly sys sd > checkDate)
              then Inr False
              else if (case endDate effectiveSchedule of
                         None \<Rightarrow> False | Some ed \<Rightarrow> toDateOnly sys ed < checkDate)
              then Inr False
              else if asNeeded effectiveSchedule then Inr False
              else if med_id effectiveSchedule = ''atropine''
              then Inr (List.member (getAtropineSlots sys cfg date) slt)
              else
                (case map_of (frequencySlots cfg) (frequency effectiveSchedule) of
                   Some slots \<Rightarrow> Inr (List.member slots slt)
                 | None \<Rightarrow>
                    if frequency effectiveSchedule \<in> set objectPrototypeKeys
                    then Inl TypeError
                    else Inr False)))"

definition EYE_DROP_STAGGER_MINUTES :: nat where
  "EYE_DROP_STAGGER_MINUTES = 6"

definition formatTime :: "nat \<Rightarrow> nat \<Rightarrow> string" where
  "formatTime hrs mins =
    (let period = (if hrs \<ge> 12 then ''PM'' else ''AM'');
         displayHours = (if hrs mod 12 = 0 then 12 else hrs mod 12);
         displayMinutes = padStart 2 CHR ''0'' (toString (int mins))
     in toString (int displayHours) @ '':'' @ displayMinutes @ '' '' @ period)"

record staggered_time =
  hours :: nat
  minutes :: nat
  formatted :: string

fun baseTimes :: "slot_name \<Rightarrow> nat \<times> nat" where
  "baseTimes MORNING = (8, 30)"
| "baseTimes LATE_MORNING = (11, 0)"
| "baseTimes MIDDAY = (14, 0)"
| "baseTimes EVENING = (19, 0)"
| "baseTimes LATE_NIGHT = (22, 30)"
| "baseTimes NIGHT = (0, 0)"

definition getStaggeredTime :: "slot_name \<Rightarrow> nat \<Rightarrow> staggered_time" where
  "getStaggeredTime slotName staggerIndex =
    (case baseTimes slotName of
       (base_hours, base_minutes) \<Rightarrow>
         (let totalMinutes = base_hours * 60 + base_minutes + staggerIndex * EYE_DROP_STAGGER_MINUTES;
              hrs = (totalMinutes div 60) mod 24;
              mins = totalMinutes mod 60
          in \<lparr>hours = hrs, minutes = mins, formatted = formatTime hrs mins\<rparr>))"

text \<open>The emoji of the message template, as their UTF-8 bytes, and the line feed.\<close>

definition emoji_clock :: string where
  "emoji_clock = [CHR 0xE2, CHR 0x8F, CHR 0xB0]"

definition emoji_eye :: string where
  "emoji_eye = [CHR 0xF0, CHR 0x9F, CHR 0x91, CHR 0x81, CHR 0xEF, CHR 0xB8, CHR 0x8F]"

definition emoji_pill :: string where
  "emoji_pill = [CHR 0xF0, CHR 0x9F, CHR 0x92, CHR 0x8A]"

definition emoji_check :: string where
  "emoji_check = [CHR 0xE2, CHR 0x9C, CHR 0x85]"

definition LF :: string where
  "LF = [CHR 0x0A]"

definition locationEmoji :: "(string \<times> string) list" where
  "locationEmoji =
    [(''LEFT eye'', emoji_eye @ '' LEFT''),
     (''RIGHT eye'', emoji_eye @ '' RIGHT''),
     (''ORAL'', emoji_pill @ '' ORAL'')]"

definition formatIndividualMessage :: "medication \<Rightarrow> string \<Rightarrow> int \<Rightarrow> string" where
  "formatIndividualMessage med timeStr dayNum =
    emoji_clock @ '' '' @ timeStr @ '' - Day '' @ toString dayNum @ LF @ LF @
    (case map_of locationEmoji (location med) of Some e \<Rightarrow> e | None \<Rightarrow> location med) @ LF @
    name med @ LF @
    ''Dose: '' @ dose med @ LF @
    (case med_notes med of
       None \<Rightarrow> []
     | Some n \<Rightarrow> if n = [] then [] else LF @ n @ LF) @
    LF @ emoji_check @ '' Reply '' @ [CHR 0x22] @ ''done'' @ [CHR 0x22] @ '' to confirm''"

text \<open>\<^verbatim>\<open>text.includes(part)\<close>: \<open>part\<close> occurs in \<open>text\<close> as a run of characters.\<close>

primrec str_includes :: "string \<Rightarrow> string \<Rightarrow> bool" where
  "str_includes [] part = (part = [])"
| "str_includes (c # cs) part = (take (length part) (c # cs) = part \<or> str_includes cs part)"

definition locationOrder :: "string list" where
  "locationOrder = [''LEFT eye'', ''RIGHT eye'', ''ORAL'']"

text \<open>
  The array \<^verbatim>\<open>dueChecks\<close> of \<^verbatim>\<open>getIndividualReminders\<close>: for every medication of the
  catalog, in order, \<^verbatim>\<open>med.active && await isMedicationDue(med, slot, date)\<close>; the check
  is not called for a medication the catalog has inactive. An entry \<open>Inl TypeError\<close> is
  a check whose promise was rejected.
\<close>

definition dueChecks ::
  "int \<Rightarrow> config \<Rightarrow> (string \<Rightarrow> customSchedule option) \<Rightarrow> slot_name \<Rightarrow> instant
    \<Rightarrow> (medication \<times> (error + bool)) list" where
  "dueChecks sys cfg sched slt date =
    map (\<lambda>med. (med, if active med then isMedicationDue sys cfg sched med (slot_str slt) date
                       else Inr False))
        (getAllMedications cfg)"

text \<open>
  \<^verbatim>\<open>dueChecks.filter(result => result.isDue).map(result => result.med)\<close>: the
  medications \<^verbatim>\<open>getIndividualReminders\<close> keeps, in catalog order.
\<close>

definition dueMeds ::
  "int \<Rightarrow> config \<Rightarrow> (string \<Rightarrow> customSchedule option) \<Rightarrow> slot_name \<Rightarrow> instant \<Rightarrow> medication list" where
  "dueMeds sys cfg sched slt date =
    map fst (filter (\<lambda>(med, isDue). isDue = Inr True) (dueChecks sys cfg sched slt date))"

text \<open>
  The inner loop \<^verbatim>\<open>for (let i = 0; i < meds.length; i++)\<close> over the medications of one
  location. It carries \<^verbatim>\<open>globalStaggerIndex\<close> and gives it back; beside each reminder it
  pushes, the model keeps the \<^verbatim>\<open>staggerIndex\<close> the reminder was built with.
\<close>

fun locationReminders ::
  "string \<Rightarrow> slot_name \<Rightarrow> int \<Rightarrow> string \<Rightarrow> nat \<Rightarrow> medication list \<Rightarrow> (nat \<times> reminder) list \<times> nat" where
  "locationReminders dateStr slt dayNum loc globalStaggerIndex [] = ([], globalStaggerIndex)"
| "locationReminders dateStr slt dayNum loc globalStaggerIndex (med # meds) =
    (let isEyeDrop = str_includes loc ''eye'';
         staggerIndex = (if isEyeDrop then globalStaggerIndex else 0);
         time = getStaggeredTime slt staggerIndex;
         globalStaggerIndex' = (if isEyeDrop then globalStaggerIndex + 1 else globalStaggerIndex);
         reminder =
           \<lparr>rem_id = dateStr @ ''-'' @ slot_str slt @ ''-'' @ med_id med,
            medicationId = med_id med,
            medication = med,
            slot = slot_str slt,
            dayNumber = dayNum,
            scheduledTime = formatted time,
            message = formatIndividualMessage med (formatted time) dayNum,
            confirmed = False,
            sentAt = None\<rparr>
     in case locationReminders dateStr slt dayNum loc globalStaggerIndex' meds of
          (rest, g) \<Rightarrow> ((staggerIndex, reminder) # rest, g))"

text \<open>
  The outer loop \<^verbatim>\<open>for (const location of locationOrder)\<close>; \<^verbatim>\<open>byLocation[location]\<close> is
  the due medications of that location, in their order.
\<close>

fun staggeredReminders ::
  "string \<Rightarrow> slot_name \<Rightarrow> int \<Rightarrow> medication list \<Rightarrow> nat \<Rightarrow> string list \<Rightarrow> (nat \<times> reminder) list" where
  "staggeredReminders dateStr slt dayNum due globalStaggerIndex [] = []"
| "staggeredReminders dateStr slt dayNum due globalStaggerIndex (loc # locs) =
    (let meds = filter (\<lambda>med. location med = loc) due
     in case locationReminders dateStr slt dayNum loc globalStaggerIndex meds of
          (rs, g) \<Rightarrow> rs @ staggeredReminders dateStr slt dayNum due g locs)"

text \<open>
  What \<^verbatim>\<open>getIndividualReminders(date)\<close> returns:
  \<^verbatim>\<open>{ slot, slotTime, dayNumber, reminders }\<close>, or \<^verbatim>\<open>{ slot: null, reminders: [] }\<close>.
\<close>

record generated =
  g_slot :: "slot_name option"
  g_slotTime :: "string option"
  g_dayNumber :: "int option"
  g_reminders :: "reminder list"

text \<open>
  The reminders of a slot, each beside the \<^verbatim>\<open>staggerIndex\<close> it was built with, from the
  due medications on.
\<close>

definition staggerTrace ::
  "int \<Rightarrow> config \<Rightarrow> (string \<Rightarrow> customSchedule option) \<Rightarrow> slot_name \<Rightarrow> instant \<Rightarrow> (nat \<times> reminder) list" where
  "staggerTrace sys cfg sched slt date =
    staggeredReminders (toISODate date) slt (getDayNumber sys cfg date)
      (dueMeds sys cfg sched slt date) 0 locationOrder"

text \<open>
  \<^verbatim>\<open>getIndividualReminders(date)\<close>. The promise is rejected, with a \<^verbatim>\<open>TypeError\<close>, in
  two cases: \<^verbatim>\<open>Promise.all\<close> rejects when a due check does; and the grouping loop
  \<^verbatim>\<open>if (!byLocation[loc]) byLocation[loc] = []; byLocation[loc].push(med)\<close> raises for
  a due medication whose location names a property of \<^verbatim>\<open>Object.prototype\<close>, since
  \<^verbatim>\<open>byLocation\<close> is an object literal.
\<close>

definition getIndividualReminders ::
  "zone \<Rightarrow> int \<Rightarrow> config \<Rightarrow> (string \<Rightarrow> customSchedule option) \<Rightarrow> instant \<Rightarrow> error + generated" where
  "getIndividualReminders tz sys cfg sched date =
    (case getCurrentTimeSlot tz date of
       None \<Rightarrow> Inr \<lparr>g_slot = None, g_slotTime = None, g_dayNumber = None, g_reminders = []\<rparr>
     | Some slt \<Rightarrow>
        if list_ex (\<lambda>(med, isDue). isDue = Inl TypeError) (dueChecks sys cfg sched slt date)
        then Inl TypeError
        else if list_ex (\<lambda>med. location med \<in> set objectPrototypeKeys)
                  (dueMeds sys cfg sched slt date)
        then Inl TypeError
        else
          Inr \<lparr>g_slot = Some slt,
               g_slotTime = map_of (timeSlots cfg) (slot_str slt),
               g_dayNumber = Some (getDayNumber sys cfg date),
               g_reminders = map snd (staggerTrace sys cfg sched slt date)\<rparr>)"

section \<open>Notification channels (src/lib/twilio.js, messenger.js, notifications.js)\<close>

text \<open>
  One per-recipient result of a channel: \<^verbatim>\<open>{ to, success, ... }\<close>.
\<close>

record send_result =
  recipient :: string
  success :: bool

text \<open>
  What the two channels are configured with and how their services answer.
  \<open>twilioCredentials\<close> says whether \<^verbatim>\<open>TWILIO_ACCOUNT_SID\<close> and \<^verbatim>\<open>TWILIO_AUTH_TOKEN\<close>
  are both set; \<open>recipientNumbers\<close> is \<^verbatim>\<open>RECIPIENT_NUMBERS\<close>; \<open>messagesCreate i number body\<close>
  says whether \<^verbatim>\<open>twilioClient.messages.create\<close> resolves, rather than throwing, for that
  number during the \<open>i\<close>-th notification. \<open>pageAccessToken\<close> says whether
  \<^verbatim>\<open>FB_PAGE_ACCESS_TOKEN\<close> is set; \<open>recipientPsids\<close> is \<^verbatim>\<open>RECIPIENT_PSIDS\<close>;
  \<open>messengerPost i psid body\<close> says whether the request to the Messenger API comes back
  with \<^verbatim>\<open>response.ok\<close>, rather than failing or throwing.
\<close>

record channels =
  twilioCredentials :: bool
  recipientNumbers :: "string list"
  messagesCreate :: "nat \<Rightarrow> string \<Rightarrow> string \<Rightarrow> bool"
  pageAccessToken :: bool
  recipientPsids :: "string list"
  messengerPost :: "nat \<Rightarrow> string \<Rightarrow> string \<Rightarrow> bool"

text \<open>
  \<^verbatim>\<open>sendWhatsApp(message)\<close>. \<^verbatim>\<open>getClient()\<close> throws when a credential is missing, and
  that is the only way the function throws: a failure for one number is caught and
  becomes a result with \<^verbatim>\<open>success: false\<close>. A success carries the \<^verbatim>\<open>to\<close> of the
  service's answer, the number with the prefix \<^verbatim>\<open>whatsapp:\<close>.
\<close>

definition sendWhatsApp :: "channels \<Rightarrow> nat \<Rightarrow> string \<Rightarrow> error + send_result list" where
  "sendWhatsApp ch i msg =
    (if \<not> twilioCredentials ch
     then Inl (Error ''Missing TWILIO_ACCOUNT_SID or TWILIO_AUTH_TOKEN'')
     else Inr (map (\<lambda>number.
                 if messagesCreate ch i number msg
                 then \<lparr>recipient = ''whatsapp:'' @ number, success = True\<rparr>
                 else \<lparr>recipient = number, success = False\<rparr>)
               (recipientNumbers ch)))"

text \<open>\<^verbatim>\<open>sendMessenger(message)\<close>, which never throws.\<close>

definition sendMessenger :: "channels \<Rightarrow> nat \<Rightarrow> string \<Rightarrow> send_result list" where
  "sendMessenger ch i msg =
    (if \<not> pageAccessToken ch then []
     else if length (recipientPsids ch) = 0 then []
     else map (\<lambda>psid. \<lparr>recipient = psid, success = messengerPost ch i psid msg\<rparr>)
              (recipientPsids ch))"

definition isMessengerConfigured :: "channels \<Rightarrow> bool" where
  "isMessengerConfigured ch = (pageAccessToken ch \<and> length (recipientPsids ch) > 0)"

text \<open>
  What \<^verbatim>\<open>sendNotification\<close> returns: the object
  \<^verbatim>\<open>{ whatsapp, messenger, summary: { sent, failed } }\<close>.
\<close>

record notification_results =
  whatsapp :: "send_result list"
  messenger :: "send_result list"
  summary_sent :: nat
  summary_failed :: nat

text \<open>
  \<^verbatim>\<open>sendNotification(message)\<close>, the \<open>i\<close>-th notification of a run. Each channel is
  called inside a \<^verbatim>\<open>try\<close> whose \<^verbatim>\<open>catch\<close> only logs, so the function never throws: it
  always returns the object, with the results of a channel that threw left empty.
\<close>

definition sendNotification :: "channels \<Rightarrow> nat \<Rightarrow> string \<Rightarrow> notification_results" where
  "sendNotification ch i msg =
    (let results = \<lparr>whatsapp = [], messenger = [], summary_sent = 0, summary_failed = 0\<rparr>;
         results =
           (case sendWhatsApp ch i msg of
              Inl e \<Rightarrow> results
            | Inr rs \<Rightarrow>
               (let whatsappSuccess = length (filter success rs)
                in results\<lparr>whatsapp := rs,
                           summary_sent := summary_sent results + whatsappSuccess,
                           summary_failed := summary_failed results + (length rs - whatsappSuccess)\<rparr>));
         results =
           (if isMessengerConfigured ch
            then (let rs = sendMessenger ch i msg;
                      messengerSuccess = length (filter success rs)
                  in results\<lparr>messenger := rs,
                             summary_sent := summary_sent results + messengerSuccess,
                             summary_failed := summary_failed results + (length rs - messengerSuccess)\<rparr>)
            else results)
     in results)"

section \<open>Trigger handler (api/cron.js)\<close>

text \<open>
  \<^verbatim>\<open>for (const result of sendResults)\<close>, where \<^verbatim>\<open>sendResults\<close> is what
  \<^verbatim>\<open>sendNotification\<close> returned. That value is an object literal, which is not iterable:
  the statement raises a \<^verbatim>\<open>TypeError\<close> before its body runs once.
\<close>

definition forOf :: "notification_results \<Rightarrow> error + send_result list" where
  "forOf sendResults = Inl TypeError"

text \<open>
  The loop \<^verbatim>\<open>for (const reminder of reminders)\<close> of the handler, the \<open>i\<close>-th
  notification of the run being the next; \<open>clock i\<close> is the reading of \<^verbatim>\<open>Date.now()\<close>
  after it. Inside the \<^verbatim>\<open>try\<close> block the handler sends the notification, iterates the
  value to log it, then sets \<^verbatim>\<open>sentAt\<close> and pushes the id; the \<^verbatim>\<open>catch\<close> block logs and
  goes on with the next reminder. The loop returns the reminders, those sent now carrying
  \<^verbatim>\<open>sentAt\<close>, and \<^verbatim>\<open>sentIds\<close>.
\<close>

fun sendLoop ::
  "channels \<Rightarrow> (nat \<Rightarrow> instant) \<Rightarrow> nat \<Rightarrow> reminder list \<Rightarrow> reminder list \<times> string list" where
  "sendLoop ch clock i [] = ([], [])"
| "sendLoop ch clock i (reminder # reminders) =
    (case sendLoop ch clock (i + 1) reminders of
       (rs, sentIds) \<Rightarrow>
         (case forOf (sendNotification ch i (message reminder)) of
            Inr results \<Rightarrow> (reminder\<lparr>sentAt := Some (clock i)\<rparr> # rs, rem_id reminder # sentIds)
          | Inl e \<Rightarrow> (reminder # rs, sentIds)))"

text \<open>
  The statements of the handler from \<^verbatim>\<open>const sentIds = []\<close> on, run on the reminders the
  generator returned: send every reminder, keep those whose id is in \<^verbatim>\<open>sentIds\<close>, hand
  them to \<^verbatim>\<open>addPendingReminders\<close>. The result is the reminders handed over and
  \<^verbatim>\<open>sentIds\<close>, with the store.
\<close>

definition dispatch ::
  "channels \<Rightarrow> (nat \<Rightarrow> instant) \<Rightarrow> store \<Rightarrow> reminder list
    \<Rightarrow> (reminder list \<times> string list) \<times> store" where
  "dispatch ch clock s reminders' =
    (case sendLoop ch clock 0 reminders' of
       (rs, sentIds) \<Rightarrow>
         (let sentReminders = filter (\<lambda>r. rem_id r \<in> set sentIds) rs
          in ((sentReminders, sentIds), snd (addPendingReminders s sentReminders))))"

section \<open>The catalog and the stores used in the examples\<close>

text \<open>
  The catalog of the earlier, hard-coded \<^verbatim>\<open>medications.js\<close>. The surgery date is
  \<^verbatim>\<open>2026-01-12T12:00:00-08:00\<close>.
\<close>

definition SURGERY_DATE :: instant where
  "SURGERY_DATE = 1768248000000"

definition catalog_leftEye :: "medication list" where
  "catalog_leftEye =
    [\<lparr>med_id = ''ofloxacin'', name = ''Ofloxacin 0.3%'', dose = ''1 drop'', frequency = ''4x_daily'',
       location = ''LEFT eye'',
       med_notes = None,
       startDate = Some 1768248000000, endDate = None, active = True, asNeeded = False,
       tapering = None\<rparr>,
     \<lparr>med_id = ''plasma'', name = ''Homologous plasma'', dose = ''1 drop'', frequency = ''4x_daily'',
       location = ''LEFT eye'',
       med_notes = Some ([CHR 0xE2, CHR 0x9D, CHR 0x84, CHR 0xEF, CHR 0xB8, CHR 0x8F] @ '' Refrigerated''),
       startDate = Some 1768248000000, endDate = None, active = True, asNeeded = False,
       tapering = None\<rparr>,
     \<lparr>med_id = ''amniotic'', name = ''Amniotic eye drops'', dose = ''1 drop'', frequency = ''2x_daily'',
       location = ''LEFT eye'',
       med_notes = Some ([CHR 0xE2, CHR 0x9D, CHR 0x84, CHR 0xEF, CHR 0xB8, CHR 0x8F] @ '' Refrigerated''),
       startDate = Some 1768248000000, endDate = None, active = True, asNeeded = False,
       tapering = None\<rparr>,
     \<lparr>med_id = ''atropine'', name = ''Atropine 1%'', dose = ''1 drop'', frequency = ''tapering'',
       location = ''LEFT eye'',
       med_notes = Some ([CHR 0xE2, CHR 0x9A, CHR 0xA0, CHR 0xEF, CHR 0xB8, CHR 0x8F] @ '' May cause drooling''),
       startDate = Some 1768248000000, endDate = None, active = True, asNeeded = False,
       tapering = Some \<lparr>day1 = [''MORNING'', ''MIDDAY'', ''EVENING''], day2 = [''MORNING'', ''EVENING''], day3plus = [''MORNING'']\<rparr>\<rparr>]"

definition catalog_rightEye :: "medication list" where
  "catalog_rightEye =
    [\<lparr>med_id = ''prednisolone-eye'', name = ''Prednisolone acetate 1%'', dose = ''1 drop'', frequency = ''2x_daily'',
       location = ''RIGHT eye'',
       med_notes = Some ([CHR 0xF0, CHR 0x9F, CHR 0x9B, CHR 0x91] @ '' If squinting, STOP & call vet (650-551-1115)''),
       startDate = Some 1768248000000, endDate = None, active = True, asNeeded = False,
       tapering = None\<rparr>,
     \<lparr>med_id = ''tacrolimus-cyclosporine'', name = ''Tacrolimus 0.03% + Cyclosporine 2%'', dose = ''1 drop'', frequency = ''2x_daily'',
       location = ''RIGHT eye'',
       med_notes = Some ([CHR 0xF0, CHR 0x9F, CHR 0xA7, CHR 0xA4] @ '' Wash hands after. '' @ [CHR 0xF0, CHR 0x9F, CHR 0x94, CHR 0x81] @ '' Lifelong med''),
       startDate = Some 1768248000000, endDate = None, active = True, asNeeded = False,
       tapering = None\<rparr>]"

definition catalog_oral :: "medication list" where
  "catalog_oral =
    [\<lparr>med_id = ''prednisolone-oral'', name = ''Prednisolone 5mg tablet'', dose = [CHR 0xC2, CHR 0xBD] @ '' tablet'', frequency = ''1x_daily'',
       location = ''ORAL'',
       med_notes = Some ([CHR 0xE2, CHR 0x9A, CHR 0xA0, CHR 0xEF, CHR 0xB8, CHR 0x8F] @ '' Do NOT stop abruptly. May increase hunger/thirst/urination''),
       startDate = Some 1768507200000, endDate = None, active = True, asNeeded = False,
       tapering = None\<rparr>,
     \<lparr>med_id = ''amoxicillin'', name = ''Amoxicillin/Clavulanate liquid'', dose = ''1 mL'', frequency = ''12h'',
       location = ''ORAL'',
       med_notes = Some ([CHR 0xF0, CHR 0x9F, CHR 0x8D, CHR 0xBD, CHR 0xEF, CHR 0xB8, CHR 0x8F] @ '' Give with food. '' @ [CHR 0xE2, CHR 0x9D, CHR 0x84, CHR 0xEF, CHR 0xB8, CHR 0x8F] @ '' Refrigerate''),
       startDate = Some 1768334400000, endDate = None, active = True, asNeeded = False,
       tapering = None\<rparr>,
     \<lparr>med_id = ''gabapentin'', name = ''Gabapentin 50mg'', dose = ''1 tablet'', frequency = ''12h_11'',
       location = ''ORAL'',
       med_notes = Some ([CHR 0xF0, CHR 0x9F, CHR 0x92, CHR 0x8A] @ '' For pain. May cause sedation''),
       startDate = Some 1768248000000, endDate = None, active = True, asNeeded = False,
       tapering = None\<rparr>]"

definition catalog :: config where
  "catalog =
    \<lparr>surgeryDate = SURGERY_DATE,
     timeSlots =
       [(''MORNING'', ''08:30''), (''LATE_MORNING'', ''11:00''), (''MIDDAY'', ''14:00''),
        (''EVENING'', ''19:00''), (''LATE_NIGHT'', ''23:00''), (''NIGHT'', ''00:00'')],
     frequencySlots =
       [(''4x_daily'', [''MORNING'', ''MIDDAY'', ''EVENING'', ''NIGHT'']),
        (''2x_daily'', [''MORNING'', ''EVENING'']),
        (''1x_daily'', [''MORNING'']),
        (''12h'', [''MORNING'', ''EVENING'']),
        (''12h_11'', [''LATE_MORNING'', ''LATE_NIGHT''])],
     leftEye = catalog_leftEye, rightEye = catalog_rightEye, oral = catalog_oral\<rparr>"

text \<open>The zone of the reminders in winter: Pacific Standard Time.\<close>

definition PST :: zone where
  "PST = (\<lambda>t. - 480)"

text \<open>The two stores before anything is written: the in-memory fallback and Redis.\<close>

definition memoryStore :: store where
  "memoryStore =
    \<lparr>upstash = False, pending = [], confirmedKV = Map.empty, confirmedMem = {},
     sentKV = Map.empty, sentSlots = {}\<rparr>"

definition redisStore :: store where
  "redisStore = memoryStore\<lparr>upstash := True\<rparr>"

text \<open>
  A pending entry as the storage tests write it:
  \<^verbatim>\<open>{ id, medicationId, slot, medication: { name }, sentAt }\<close>.
\<close>

definition testReminder :: "string \<Rightarrow> string \<Rightarrow> string \<Rightarrow> string \<Rightarrow> instant option \<Rightarrow> reminder" where
  "testReminder i medId slt nm sent =
    \<lparr>rem_id = i, medicationId = medId,
     medication =
       \<lparr>med_id = medId, name = nm, dose = [], frequency = [], location = [],
        med_notes = None, startDate = None, endDate = None, active = True, asNeeded = False,
        tapering = None\<rparr>,
     slot = slt, dayNumber = 1, scheduledTime = [], message = [], confirmed = False,
     sentAt = sent\<rparr>"

text \<open>
  The pending list of the dashboard test: four reminders of one morning, oldest first.
\<close>

definition fourPending :: store where
  "fourPending = memoryStore\<lparr>pending :=
     [testReminder ''r1'' ''atropine'' ''MORNING'' ''Atropine 1%'' (Some 1768320000000),
      testReminder ''r2'' ''pred'' ''MORNING'' ''Prednisolone acetate 1%'' (Some 1768320006000),
      testReminder ''r3'' ''tacro'' ''MORNING'' ''Tacrolimus 0.03% + Cyclosporine 2%'' (Some 1768320012000),
      testReminder ''r4'' ''amox'' ''MORNING'' ''Amoxicillin/Clavulanate liquid'' (Some 1768320018000)]\<rparr>"

text \<open>
  A pending list on Redis with yesterday's and today's morning reminder of one medication.
\<close>

definition twoMornings :: store where
  "twoMornings = redisStore\<lparr>pending :=
     [testReminder ''2026-01-12-MORNING-ofloxacin'' ''ofloxacin'' ''MORNING'' ''Ofloxacin 0.3%''
        (Some 1768235400000),
      testReminder ''2026-01-13-MORNING-ofloxacin'' ''ofloxacin'' ''MORNING'' ''Ofloxacin 0.3%''
        (Some 1768321800000)]\<rparr>"

text \<open>
  Four pending entries read at the instant 1768321800000: sent 31, 30 and 29 minutes
  before it, and never sent.
\<close>

definition resendPending :: store where
  "resendPending = memoryStore\<lparr>pending :=
     [testReminder ''r31'' ''med1'' ''MORNING'' ''Med A'' (Some (1768321800000 - 31 * 60000)),
      testReminder ''r30'' ''med2'' ''MORNING'' ''Med B'' (Some (1768321800000 - 30 * 60000)),
      testReminder ''r29'' ''med3'' ''MORNING'' ''Med C'' (Some (1768321800000 - 29 * 60000)),
      testReminder ''r0'' ''med4'' ''MORNING'' ''Med D'' None]\<rparr>"

text \<open>
  Channels for the examples: WhatsApp with its two recipients, Messenger not configured.
  With the first, the service refuses every message; with the second, it accepts every
  message for the first number and refuses the second number.
\<close>

definition noneReached :: channels where
  "noneReached =
    \<lparr>twilioCredentials = True,
     recipientNumbers = [''+18573008938'', ''+13014615385''],
     messagesCreate = (\<lambda>i number body. False),
     pageAccessToken = False, recipientPsids = [],
     messengerPost = (\<lambda>i psid body. False)\<rparr>"

definition oneReached :: channels where
  "oneReached = noneReached\<lparr>messagesCreate := (\<lambda>i number body. number = ''+18573008938'')\<rparr>"

text \<open>
  A sequence of calls of \<^verbatim>\<open>claimSlot\<close>: each call is made at an instant and has the slot
  and the date it passes. \<open>claimSlots\<close> runs the calls one after the other on the store
  and lists what each returned; \<open>winners\<close> are the calls that built the given key and
  returned \<^verbatim>\<open>true\<close>.
\<close>

record claim_call =
  call_at :: instant
  call_slot :: string
  call_date :: instant

fun claimSlots :: "zone \<Rightarrow> store \<Rightarrow> claim_call list \<Rightarrow> bool list \<times> store" where
  "claimSlots tz s [] = ([], s)"
| "claimSlots tz s (c # cs) =
    (case claimSlot tz (call_at c) s (call_slot c) (call_date c) of
       (won, s') \<Rightarrow>
         (case claimSlots tz s' cs of (wons, s'') \<Rightarrow> (won # wons, s'')))"

definition winners :: "zone \<Rightarrow> string \<Rightarrow> claim_call list \<Rightarrow> bool list \<Rightarrow> claim_call list" where
  "winners tz key calls results =
    map fst (filter (\<lambda>(c, won). won \<and> claimKey tz (call_slot c) (call_date c) = key)
                    (zip calls results))"

text \<open>The key is claimed in the store for every instant before \<open>T\<close>.\<close>

definition held :: "string \<Rightarrow> instant \<Rightarrow> store \<Rightarrow> bool" where
  "held key T s =
    (if upstash s then
       (case sentKV s key of
          None \<Rightarrow> False
        | Some e \<Rightarrow> (case kv_expires e of None \<Rightarrow> True | Some d \<Rightarrow> T \<le> d))
     else key \<in> sentSlots s)"

text \<open>A call for the morning slot of 2026-01-13 (Pacific time), made at \<open>t\<close>.\<close>

definition morningCall :: "instant \<Rightarrow> claim_call" where
  "morningCall t = \<lparr>call_at = t, call_slot = ''MORNING'', call_date = 1768321800000\<rparr>"

text \<open>
  Medications and a custom schedule for the examples: the atropine entry of the catalog; a
  second tapering medication, for the right eye, with a table of its own; and the custom
  schedule that sets the frequency of atropine to \<^verbatim>\<open>4x_daily\<close>.
\<close>

definition catalog_atropine :: medication where
  "catalog_atropine = catalog_leftEye ! 3"

definition atropine_rightEye :: medication where
  "atropine_rightEye =
    \<lparr>med_id = ''atropine-right'', name = ''Atropine 1%'', dose = ''1 drop'', frequency = ''tapering'',
     location = ''RIGHT eye'', med_notes = None,
     startDate = Some SURGERY_DATE, endDate = None, active = True, asNeeded = False,
     tapering = Some \<lparr>day1 = [''MORNING'', ''MIDDAY'', ''EVENING''], day2 = [''MORNING'', ''EVENING''],
                      day3plus = [''MORNING'']\<rparr>\<rparr>"

definition atropine_4x :: "string \<Rightarrow> customSchedule option" where
  "atropine_4x medId =
    (if medId = ''atropine''
     then Some \<lparr>cs_frequency = Some ''4x_daily'', cs_timeSlots = None, cs_active = None,
                cs_notes = None, cs_updatedAt = SURGERY_DATE\<rparr>
     else None)"

text \<open>
  Two more entries of the catalog, and the custom schedules that set only the frequency,
  or only \<^verbatim>\<open>active\<close>, of one medication.
\<close>

definition catalog_ofloxacin :: medication where
  "catalog_ofloxacin = catalog_leftEye ! 0"

definition catalog_prednisolone_oral :: medication where
  "catalog_prednisolone_oral = catalog_oral ! 0"

definition customFrequency :: "string \<Rightarrow> string \<Rightarrow> string \<Rightarrow> customSchedule option" where
  "customFrequency medId f i =
    (if i = medId
     then Some \<lparr>cs_frequency = Some f, cs_timeSlots = None, cs_active = None,
                cs_notes = None, cs_updatedAt = SURGERY_DATE\<rparr>
     else None)"

definition customActive :: "string \<Rightarrow> bool \<Rightarrow> string \<Rightarrow> customSchedule option" where
  "customActive medId a i =
    (if i = medId
     then Some \<lparr>cs_frequency = None, cs_timeSlots = None, cs_active = Some a,
                cs_notes = None, cs_updatedAt = SURGERY_DATE\<rparr>
     else None)"

text \<open>
  The minute of the day of a display time, and whether an entry of the trace is an eye
  drop: the location of its medication contains \<^verbatim>\<open>eye\<close>.
\<close>

definition minuteOfDay :: "staggered_time \<Rightarrow> nat" where
  "minuteOfDay t = hours t * 60 + minutes t"

definition isEyeDrop :: "nat \<times> reminder \<Rightarrow> bool" where
  "isEyeDrop p = str_includes (location (medication (snd p))) ''eye''"

text \<open>The three runs of the trace, one per location.\<close>

definition leftPart :: "int \<Rightarrow> config \<Rightarrow> (string \<Rightarrow> customSchedule option) \<Rightarrow> slot_name \<Rightarrow> instant \<Rightarrow> (nat \<times> reminder) list" where
  "leftPart sys cfg sched slt date =
    fst (locationReminders (toISODate date) slt (getDayNumber sys cfg date) ''LEFT eye'' 0
      (filter (\<lambda>med. location med = ''LEFT eye'') (dueMeds sys cfg sched slt date)))"

definition rightPart :: "int \<Rightarrow> config \<Rightarrow> (string \<Rightarrow> customSchedule option) \<Rightarrow> slot_name \<Rightarrow> instant \<Rightarrow> (nat \<times> reminder) list" where
  "rightPart sys cfg sched slt date =
    fst (locationReminders (toISODate date) slt (getDayNumber sys cfg date) ''RIGHT eye''
      (length (filter (\<lambda>med. location med = ''LEFT eye'') (dueMeds sys cfg sched slt date)))
      (filter (\<lambda>med. location med = ''RIGHT eye'') (dueMeds sys cfg sched slt date)))"

definition oralPart :: "int \<Rightarrow> config \<Rightarrow> (string \<Rightarrow> customSchedule option) \<Rightarrow> slot_name \<Rightarrow> instant \<Rightarrow> (nat \<times> reminder) list" where
  "oralPart sys cfg sched slt date =
    fst (locationReminders (toISODate date) slt (getDayNumber sys cfg date) ''ORAL''
      (length (filter (\<lambda>med. location med = ''LEFT eye'') (dueMeds sys cfg sched slt date))
       + length (filter (\<lambda>med. location med = ''RIGHT eye'') (dueMeds sys cfg sched slt date)))
      (filter (\<lambda>med. location med = ''ORAL'') (dueMeds sys cfg sched slt date)))"

section \<open>Properties of the pending set\<close>

lemma addPendingReminders_eq:
  "addPendingReminders s rs =
    (pending s @ filter (\<lambda>r. rem_id r \<notin> set (map rem_id (pending s))) rs,
     s\<lparr>pending := pending s @ filter (\<lambda>r. rem_id r \<notin> set (map rem_id (pending s))) rs\<rparr>)"
  by (simp add: addPendingReminders_def getPendingReminders_def Let_def)

lemma distinct_ids_append_unseen:
  "distinct (map rem_id ps) \<Longrightarrow> distinct (map rem_id rs) \<Longrightarrow>
   distinct (map rem_id (ps @ filter (\<lambda>r. rem_id r \<notin> set (map rem_id ps)) rs))"
  by (auto simp: distinct_map_filter) (metis imageI)

text \<open>
  Claim C2, as the code has it. \<^verbatim>\<open>addPendingReminders\<close> appends to the pending list, in
  their order, exactly the input reminders whose id is not the id of an entry that was
  pending before the call, and stores that list. Only the entries already pending are
  looked at: two input reminders with one id, not pending before, are both appended. So
  the ids of the result are pairwise different when those of the pending list were and
  those of the input batch are.
\<close>

theorem addPendingReminders_appends_unseen:
  "fst (addPendingReminders s rs) =
     pending s @ filter (\<lambda>r. rem_id r \<notin> set (map rem_id (pending s))) rs
   \<and> pending (snd (addPendingReminders s rs)) = fst (addPendingReminders s rs)
   \<and> (distinct (map rem_id (pending s)) \<and> distinct (map rem_id rs) \<longrightarrow>
        distinct (map rem_id (fst (addPendingReminders s rs))))"
  using distinct_ids_append_unseen [of "pending s" rs]
  by (simp add: addPendingReminders_eq)

theorem addPendingReminders_appends_unseen_witness:
  "distinct (map rem_id (pending memoryStore))
   \<and> distinct (map rem_id
        [testReminder ''r1'' ''med1'' ''MORNING'' ''Med A'' (Some 1768320000000),
         testReminder ''r2'' ''med2'' ''MORNING'' ''Med B'' (Some 1768320030000)])
   \<and> fst (addPendingReminders memoryStore
        [testReminder ''r1'' ''med1'' ''MORNING'' ''Med A'' (Some 1768320000000),
         testReminder ''r2'' ''med2'' ''MORNING'' ''Med B'' (Some 1768320030000)]) =
        [testReminder ''r1'' ''med1'' ''MORNING'' ''Med A'' (Some 1768320000000),
         testReminder ''r2'' ''med2'' ''MORNING'' ''Med B'' (Some 1768320030000)]
   \<and> distinct (map rem_id (fst (addPendingReminders memoryStore
        [testReminder ''r1'' ''med1'' ''MORNING'' ''Med A'' (Some 1768320000000),
         testReminder ''r2'' ''med2'' ''MORNING'' ''Med B'' (Some 1768320030000)])))"
proof -
  let ?rs = "[testReminder ''r1'' ''med1'' ''MORNING'' ''Med A'' (Some 1768320000000),
         testReminder ''r2'' ''med2'' ''MORNING'' ''Med B'' (Some 1768320030000)]"
  have p: "distinct (map rem_id (pending memoryStore))"
    by (simp add: memoryStore_def)
  have d: "distinct (map rem_id ?rs)"
    by (simp add: testReminder_def)
  have e: "filter (\<lambda>r. rem_id r \<notin> set (map rem_id (pending memoryStore))) ?rs = ?rs"
    by (simp add: memoryStore_def)
  have q: "pending memoryStore = []"
    by (simp add: memoryStore_def)
  from addPendingReminders_appends_unseen [of memoryStore ?rs] p d e q
  show ?thesis by simp
qed

text \<open>
  Against claim C2 as stated: a batch of two reminders with the id \<^verbatim>\<open>r1\<close>, added to the
  empty pending list, leaves both pending, and the stored list has two entries with one id.
\<close>

theorem addPendingReminders_keeps_batch_duplicates:
  "fst (addPendingReminders memoryStore
     [testReminder ''r1'' ''med1'' ''MORNING'' ''Med A'' None,
      testReminder ''r1'' ''med1'' ''MORNING'' ''Med A'' None]) =
     [testReminder ''r1'' ''med1'' ''MORNING'' ''Med A'' None,
      testReminder ''r1'' ''med1'' ''MORNING'' ''Med A'' None]
   \<and> \<not> distinct (map rem_id (pending (snd (addPendingReminders memoryStore
     [testReminder ''r1'' ''med1'' ''MORNING'' ''Med A'' None,
      testReminder ''r1'' ''med1'' ''MORNING'' ''Med A'' None]))))"
  by (simp add: addPendingReminders_def memoryStore_def getPendingReminders_def Let_def)

lemma find_by_id_None:
  "rid \<notin> set (map rem_id ps) \<Longrightarrow> find (\<lambda>r. rem_id r = rid) ps = None"
  by (auto simp: find_None_iff)

lemma find_by_id_split:
  "rem_id r \<notin> set (map rem_id xs) \<Longrightarrow> find (\<lambda>x. rem_id x = rem_id r) (xs @ r # ys) = Some r"
  by (induction xs) auto

lemma filter_other_ids:
  "rid \<notin> set (map rem_id xs) \<Longrightarrow> filter (\<lambda>x. rem_id x \<noteq> rid) xs = xs"
  by (induction xs) auto

lemma filter_by_id_split:
  "distinct (map rem_id (xs @ r # ys)) \<Longrightarrow>
   filter (\<lambda>x. rem_id x \<noteq> rem_id r) (xs @ r # ys) = xs @ ys"
  by (simp add: filter_other_ids)

lemma confirmById_absent:
  "rid \<notin> set (map rem_id (pending s)) \<Longrightarrow>
   confirmById tz now s rid = (NotConfirmed (''Reminder '' @ rid @ '' not found''), s)"
  by (simp add: confirmById_def getPendingReminders_def find_by_id_None Let_def)

lemma confirmById_found:
  "find (\<lambda>x. rem_id x = rid) (pending s) = Some r \<Longrightarrow>
   fst (confirmById tz now s rid) =
     Confirmed (name (medication r)) (length (filter (\<lambda>x. rem_id x \<noteq> rid) (pending s))) (Some now)
   \<and> pending (snd (confirmById tz now s rid)) = filter (\<lambda>x. rem_id x \<noteq> rid) (pending s)"
  by (simp add: confirmById_def getPendingReminders_def Let_def)

text \<open>
  Claim C6. \<^verbatim>\<open>confirmById\<close> on an id that no pending entry has returns the not-found
  result and leaves the store as it was; it is a value, not an exception. On the id of a
  pending entry \<open>r\<close>, the pending list having pairwise different ids, it removes
  \<open>r\<close> and nothing else, the entries before and after \<open>r\<close> staying in their order, and
  returns the name of \<open>r\<close>'s medication, the number of entries left and
  \<^verbatim>\<open>confirmedAt\<close>, the instant of the call. On any pending list, the entries that
  do not have the id stay, in their order, and the name returned is that of the first
  entry with the id.
\<close>

theorem confirmById_removes_exactly:
  "(rid \<notin> set (map rem_id (pending s)) \<longrightarrow>
      confirmById tz now s rid = (NotConfirmed (''Reminder '' @ rid @ '' not found''), s))
   \<and> (distinct (map rem_id (pending s)) \<and> pending s = xs @ r # ys \<longrightarrow>
        fst (confirmById tz now s (rem_id r)) =
          Confirmed (name (medication r)) (length xs + length ys) (Some now)
        \<and> pending (snd (confirmById tz now s (rem_id r))) = xs @ ys)
   \<and> (find (\<lambda>x. rem_id x = rid) (pending s) = Some e \<longrightarrow>
        fst (confirmById tz now s rid) =
          Confirmed (name (medication e))
            (length (filter (\<lambda>x. rem_id x \<noteq> rid) (pending s))) (Some now)
        \<and> pending (snd (confirmById tz now s rid)) =
            filter (\<lambda>x. rem_id x \<noteq> rid) (pending s))"
proof (intro conjI impI)
  assume "rid \<notin> set (map rem_id (pending s))"
  then show "confirmById tz now s rid = (NotConfirmed (''Reminder '' @ rid @ '' not found''), s)"
    by (rule confirmById_absent)
next
  assume a: "distinct (map rem_id (pending s)) \<and> pending s = xs @ r # ys"
  then have d: "distinct (map rem_id (xs @ r # ys))" by metis
  then have "rem_id r \<notin> set (map rem_id xs)" by auto
  then have f: "find (\<lambda>x. rem_id x = rem_id r) (pending s) = Some r"
    using a by (simp add: find_by_id_split)
  have g: "filter (\<lambda>x. rem_id x \<noteq> rem_id r) (pending s) = xs @ ys"
    using a filter_by_id_split [OF d] by simp
  from confirmById_found [OF f, of tz now] g
  show "fst (confirmById tz now s (rem_id r)) =
          Confirmed (name (medication r)) (length xs + length ys) (Some now)"
    by simp
  from confirmById_found [OF f, of tz now] g
  show "pending (snd (confirmById tz now s (rem_id r))) = xs @ ys"
    by simp
next
  assume f: "find (\<lambda>x. rem_id x = rid) (pending s) = Some e"
  from confirmById_found [OF f, of tz now]
  show "fst (confirmById tz now s rid) =
          Confirmed (name (medication e))
            (length (filter (\<lambda>x. rem_id x \<noteq> rid) (pending s))) (Some now)"
    by (rule conjunct1)
  from confirmById_found [OF f, of tz now]
  show "pending (snd (confirmById tz now s rid)) =
            filter (\<lambda>x. rem_id x \<noteq> rid) (pending s)"
    by (rule conjunct2)
qed

theorem confirmById_removes_exactly_witness:
  "''zz'' \<notin> set (map rem_id (pending fourPending))
   \<and> confirmById PST 1768320060000 fourPending ''zz'' =
       (NotConfirmed ''Reminder zz not found'', fourPending)
   \<and> distinct (map rem_id (pending fourPending))
   \<and> fst (confirmById PST 1768320060000 fourPending ''r4'') =
       Confirmed ''Amoxicillin/Clavulanate liquid'' 3 (Some 1768320060000)
   \<and> pending (snd (confirmById PST 1768320060000 fourPending ''r4'')) =
       [testReminder ''r1'' ''atropine'' ''MORNING'' ''Atropine 1%'' (Some 1768320000000),
        testReminder ''r2'' ''pred'' ''MORNING'' ''Prednisolone acetate 1%'' (Some 1768320006000),
        testReminder ''r3'' ''tacro'' ''MORNING'' ''Tacrolimus 0.03% + Cyclosporine 2%'' (Some 1768320012000)]"
proof -
  let ?r1 = "testReminder ''r1'' ''atropine'' ''MORNING'' ''Atropine 1%'' (Some 1768320000000)"
  let ?r2 = "testReminder ''r2'' ''pred'' ''MORNING'' ''Prednisolone acetate 1%'' (Some 1768320006000)"
  let ?r3 = "testReminder ''r3'' ''tacro'' ''MORNING'' ''Tacrolimus 0.03% + Cyclosporine 2%'' (Some 1768320012000)"
  let ?r4 = "testReminder ''r4'' ''amox'' ''MORNING'' ''Amoxicillin/Clavulanate liquid'' (Some 1768320018000)"
  have p: "pending fourPending = [?r1, ?r2, ?r3] @ ?r4 # []"
    by (simp add: fourPending_def memoryStore_def)
  have a: "''zz'' \<notin> set (map rem_id (pending fourPending))"
    by (simp add: p testReminder_def)
  have d: "distinct (map rem_id (pending fourPending))"
    by (simp add: p testReminder_def)
  have i: "rem_id ?r4 = ''r4''" "name (medication ?r4) = ''Amoxicillin/Clavulanate liquid''"
    by (simp_all add: testReminder_def)
  from confirmById_removes_exactly
    [of "''zz''" fourPending PST 1768320060000 "[?r1, ?r2, ?r3]" ?r4 "[]"] a d p i
  show ?thesis by simp
qed

lemma confirmLatestPending_empty:
  "pending s = [] \<Longrightarrow>
   confirmLatestPending tz now s = (NotConfirmed ''No pending medications to confirm'', s)"
  by (simp add: confirmLatestPending_def getPendingReminders_def)

lemma confirmLatestPending_cons:
  "pending s = a # rest \<Longrightarrow>
   fst (confirmLatestPending tz now s) =
     Confirmed (name (medication a))
       (length (filter (\<lambda>r. \<not> (medicationId r = medicationId a \<and> slot r = slot a)) rest)) None
   \<and> pending (snd (confirmLatestPending tz now s)) =
       filter (\<lambda>r. \<not> (medicationId r = medicationId a \<and> slot r = slot a)) rest"
  by (simp add: confirmLatestPending_def confirmMedication_def getPendingReminders_def Let_def)

lemma filter_all_kept:
  "list_all P xs \<Longrightarrow> filter P xs = xs"
  by (induction xs) auto

lemma confirmLatestPending_as_confirmById:
  assumes p: "pending s = a # rest"
    and u: "list_all (\<lambda>r. rem_id r \<noteq> rem_id a) rest"
    and v: "list_all (\<lambda>r. \<not> (medicationId r = medicationId a \<and> slot r = slot a)) rest"
  shows "snd (confirmLatestPending tz now s) = snd (confirmById tz now s (rem_id a))"
  using p filter_all_kept [OF u] filter_all_kept [OF v]
  by (simp add: confirmLatestPending_def confirmMedication_def confirmById_def
      getPendingReminders_def Let_def)

text \<open>
  Claim C7, as the code has it. On an empty pending list \<^verbatim>\<open>confirmLatestPending\<close>
  returns the nothing-pending result, a value, and changes nothing. Otherwise it takes
  the first entry \<open>a\<close> and calls \<^verbatim>\<open>confirmMedication\<close> with \<open>a\<close>'s medication id and
  slot: every pending entry of that medication and slot is removed, the others stay in
  their order, and the result carries the name of \<open>a\<close>'s medication and the number of
  entries left, without \<^verbatim>\<open>confirmedAt\<close>. When no later entry has \<open>a\<close>'s id or \<open>a\<close>'s
  medication and slot, exactly \<open>a\<close> is removed and the store is the one
  \<^verbatim>\<open>confirmById\<close> leaves for \<open>a\<close>'s id.
\<close>

theorem confirmLatestPending_removes_same_medication_and_slot:
  "(pending s = [] \<longrightarrow>
      confirmLatestPending tz now s = (NotConfirmed ''No pending medications to confirm'', s))
   \<and> (pending s = a # rest \<longrightarrow>
        fst (confirmLatestPending tz now s) =
          Confirmed (name (medication a))
            (length (filter (\<lambda>r. \<not> (medicationId r = medicationId a \<and> slot r = slot a)) rest)) None
        \<and> pending (snd (confirmLatestPending tz now s)) =
            filter (\<lambda>r. \<not> (medicationId r = medicationId a \<and> slot r = slot a)) rest)
   \<and> (pending s = a # rest
        \<and> list_all (\<lambda>r. rem_id r \<noteq> rem_id a) rest
        \<and> list_all (\<lambda>r. \<not> (medicationId r = medicationId a \<and> slot r = slot a)) rest \<longrightarrow>
        pending (snd (confirmLatestPending tz now s)) = rest
        \<and> snd (confirmLatestPending tz now s) = snd (confirmById tz now s (rem_id a)))"
proof (intro conjI impI)
  assume "pending s = []"
  then show "confirmLatestPending tz now s = (NotConfirmed ''No pending medications to confirm'', s)"
    by (rule confirmLatestPending_empty)
next
  assume p: "pending s = a # rest"
  from confirmLatestPending_cons [OF p, of tz now]
  show "fst (confirmLatestPending tz now s) =
          Confirmed (name (medication a))
            (length (filter (\<lambda>r. \<not> (medicationId r = medicationId a \<and> slot r = slot a)) rest)) None"
    by simp
  from confirmLatestPending_cons [OF p, of tz now]
  show "pending (snd (confirmLatestPending tz now s)) =
            filter (\<lambda>r. \<not> (medicationId r = medicationId a \<and> slot r = slot a)) rest"
    by simp
next
  assume h: "pending s = a # rest
        \<and> list_all (\<lambda>r. rem_id r \<noteq> rem_id a) rest
        \<and> list_all (\<lambda>r. \<not> (medicationId r = medicationId a \<and> slot r = slot a)) rest"
  then have p: "pending s = a # rest" by simp
  from h have v: "list_all (\<lambda>r. \<not> (medicationId r = medicationId a \<and> slot r = slot a)) rest"
    by simp
  from confirmLatestPending_cons [OF p, of tz now] filter_all_kept [OF v]
  show "pending (snd (confirmLatestPending tz now s)) = rest"
    by simp
  from h show "snd (confirmLatestPending tz now s) = snd (confirmById tz now s (rem_id a))"
    by (simp add: confirmLatestPending_as_confirmById)
qed

theorem confirmLatestPending_removes_same_medication_and_slot_witness:
  "confirmLatestPending PST 1768320060000 memoryStore =
     (NotConfirmed ''No pending medications to confirm'', memoryStore)
   \<and> fst (confirmLatestPending PST 1768320060000 fourPending) = Confirmed ''Atropine 1%'' 3 None
   \<and> pending (snd (confirmLatestPending PST 1768320060000 fourPending)) =
       [testReminder ''r2'' ''pred'' ''MORNING'' ''Prednisolone acetate 1%'' (Some 1768320006000),
        testReminder ''r3'' ''tacro'' ''MORNING'' ''Tacrolimus 0.03% + Cyclosporine 2%'' (Some 1768320012000),
        testReminder ''r4'' ''amox'' ''MORNING'' ''Amoxicillin/Clavulanate liquid'' (Some 1768320018000)]
   \<and> snd (confirmLatestPending PST 1768320060000 fourPending) =
       snd (confirmById PST 1768320060000 fourPending ''r1'')"
proof -
  let ?r1 = "testReminder ''r1'' ''atropine'' ''MORNING'' ''Atropine 1%'' (Some 1768320000000)"
  let ?rest = "[testReminder ''r2'' ''pred'' ''MORNING'' ''Prednisolone acetate 1%'' (Some 1768320006000),
        testReminder ''r3'' ''tacro'' ''MORNING'' ''Tacrolimus 0.03% + Cyclosporine 2%'' (Some 1768320012000),
        testReminder ''r4'' ''amox'' ''MORNING'' ''Amoxicillin/Clavulanate liquid'' (Some 1768320018000)]"
  have e: "pending memoryStore = []"
    by (simp add: memoryStore_def)
  have p: "pending fourPending = ?r1 # ?rest"
    by (simp add: fourPending_def memoryStore_def)
  have u: "list_all (\<lambda>r. rem_id r \<noteq> rem_id ?r1) ?rest"
    by (simp add: testReminder_def)
  have v: "list_all (\<lambda>r. \<not> (medicationId r = medicationId ?r1 \<and> slot r = slot ?r1)) ?rest"
    by (simp add: testReminder_def)
  have f: "filter (\<lambda>r. \<not> (medicationId r = medicationId ?r1 \<and> slot r = slot ?r1)) ?rest = ?rest"
    by (simp add: testReminder_def)
  have i: "rem_id ?r1 = ''r1''" "name (medication ?r1) = ''Atropine 1%''"
    by (simp_all add: testReminder_def)
  from confirmLatestPending_removes_same_medication_and_slot
         [of memoryStore PST 1768320060000 ?r1 ?rest] e
  have a: "confirmLatestPending PST 1768320060000 memoryStore =
     (NotConfirmed ''No pending medications to confirm'', memoryStore)"
    by simp
  note t = confirmLatestPending_removes_same_medication_and_slot
         [of fourPending PST 1768320060000 ?r1 ?rest]
  from t p have b1: "fst (confirmLatestPending PST 1768320060000 fourPending) =
          Confirmed (name (medication ?r1))
            (length (filter (\<lambda>r. \<not> (medicationId r = medicationId ?r1 \<and> slot r = slot ?r1)) ?rest)) None"
    by blast
  from t p u v have b2: "pending (snd (confirmLatestPending PST 1768320060000 fourPending)) = ?rest
        \<and> snd (confirmLatestPending PST 1768320060000 fourPending) =
            snd (confirmById PST 1768320060000 fourPending (rem_id ?r1))"
    by blast
  have l: "length ?rest = 3" by simp
  from b1 b2 have b: "fst (confirmLatestPending PST 1768320060000 fourPending) = Confirmed ''Atropine 1%'' 3 None
   \<and> pending (snd (confirmLatestPending PST 1768320060000 fourPending)) = ?rest
   \<and> snd (confirmLatestPending PST 1768320060000 fourPending) =
       snd (confirmById PST 1768320060000 fourPending ''r1'')"
    unfolding f l i by blast
  from a b show ?thesis by blast
qed

text \<open>
  Against claim C7 as stated: with yesterday's and today's morning reminder of ofloxacin
  pending, \<^verbatim>\<open>confirmLatestPending\<close> removes both, while \<^verbatim>\<open>confirmById\<close> on the id of
  the first removes the first only.
\<close>

theorem confirmLatestPending_confirmById_differ:
  "pending (snd (confirmLatestPending PST 1768322000000 twoMornings)) = []
   \<and> pending (snd (confirmById PST 1768322000000 twoMornings ''2026-01-12-MORNING-ofloxacin'')) =
       [testReminder ''2026-01-13-MORNING-ofloxacin'' ''ofloxacin'' ''MORNING'' ''Ofloxacin 0.3%''
          (Some 1768321800000)]"
  by (simp add: confirmLatestPending_def confirmMedication_def confirmById_def
      getPendingReminders_def twoMornings_def redisStore_def memoryStore_def testReminder_def Let_def)

text \<open>
  What \<^verbatim>\<open>getRemindersToResend\<close> keeps: the pending entries with a \<^verbatim>\<open>sentAt\<close> that is
  neither \<^verbatim>\<open>null\<close> nor 0 and lies at least the threshold back.
\<close>

lemma getRemindersToResend_filter:
  "getRemindersToResend now s m =
     filter (\<lambda>r. \<exists>sent. sentAt r = Some sent \<and> sent \<noteq> 0 \<and> m * 60000 \<le> now - sent) (pending s)"
  unfolding getRemindersToResend_def getPendingReminders_def Let_def
  by (rule filter_cong) (auto split: option.splits)

text \<open>
  Claim C9 at the boundary. With the default threshold of 30 minutes the entry sent 31
  minutes ago is returned, the one sent 29 minutes ago and the one never sent are not;
  the entry sent exactly 30 minutes ago, whose age does not exceed the threshold, is
  returned too, since the code compares with \<^verbatim>\<open>>=\<close>.
\<close>

theorem getRemindersToResend_includes_age_at_threshold:
  "getRemindersToResend_default 1768321800000 resendPending =
     [testReminder ''r31'' ''med1'' ''MORNING'' ''Med A'' (Some (1768321800000 - 31 * 60000)),
      testReminder ''r30'' ''med2'' ''MORNING'' ''Med B'' (Some (1768321800000 - 30 * 60000))]"
  by (simp add: getRemindersToResend_default_def getRemindersToResend_def getPendingReminders_def
      resendPending_def memoryStore_def testReminder_def)

section \<open>Properties of the trigger handler\<close>

lemma sendLoop_records_nothing:
  "sendLoop ch clock i rs = (rs, [])"
  by (induction rs arbitrary: i) (simp_all add: forOf_def)

lemma addPendingReminders_none:
  "snd (addPendingReminders s []) = s"
  by (simp add: addPendingReminders_def getPendingReminders_def Let_def)

lemma dispatch_records_nothing:
  "dispatch ch clock s rs = (([], []), s)"
  by (simp add: dispatch_def sendLoop_records_nothing addPendingReminders_none)

text \<open>
  Claim C1. Take the \<open>k\<close>-th reminder of a generated batch, and let no recipient in what
  \<^verbatim>\<open>sendNotification\<close> returned for it, on WhatsApp or on Messenger, have success. Then
  its id is not in \<^verbatim>\<open>sentIds\<close>, no reminder with its id is handed to
  \<^verbatim>\<open>addPendingReminders\<close>, the pending list is what it was, and the reminder has the
  \<^verbatim>\<open>sentAt\<close> it had. So a reminder is added to the pending list with \<^verbatim>\<open>sentAt\<close> set
  only if a recipient succeeded. The handler in fact adds none, whatever the results:
  \<^verbatim>\<open>sendNotification\<close> never throws and returns an object, iterating that object raises
  a \<^verbatim>\<open>TypeError\<close> inside the \<^verbatim>\<open>try\<close> block, and the two statements that record the
  send are never reached.
\<close>

theorem dispatch_adds_no_reminder_without_success:
  "(k < length rs
      \<and> \<not> list_ex success (whatsapp (sendNotification ch k (message (rs ! k)))
                            @ messenger (sendNotification ch k (message (rs ! k))))
     \<longrightarrow> rem_id (rs ! k) \<notin> set (snd (fst (dispatch ch clock s rs)))
         \<and> \<not> list_ex (\<lambda>r. rem_id r = rem_id (rs ! k)) (fst (fst (dispatch ch clock s rs)))
         \<and> pending (snd (dispatch ch clock s rs)) = pending s
         \<and> sentAt (fst (sendLoop ch clock 0 rs) ! k) = sentAt (rs ! k))
   \<and> sendLoop ch clock 0 rs = (rs, [])
   \<and> dispatch ch clock s rs = (([], []), s)"
proof (intro conjI impI)
  have l: "sendLoop ch clock 0 rs = (rs, [])"
    by (rule sendLoop_records_nothing)
  have d: "dispatch ch clock s rs = (([], []), s)"
    by (rule dispatch_records_nothing)
  from l show "sendLoop ch clock 0 rs = (rs, [])" .
  from d show "dispatch ch clock s rs = (([], []), s)" .
  from d show "rem_id (rs ! k) \<notin> set (snd (fst (dispatch ch clock s rs)))"
    by simp
  from d show "\<not> list_ex (\<lambda>r. rem_id r = rem_id (rs ! k)) (fst (fst (dispatch ch clock s rs)))"
    by simp
  from d show "pending (snd (dispatch ch clock s rs)) = pending s"
    by simp
  from l show "sentAt (fst (sendLoop ch clock 0 rs) ! k) = sentAt (rs ! k)"
    by simp
qed

theorem dispatch_adds_no_reminder_without_success_witness:
  "0 < length [testReminder ''2026-01-13-MORNING-ofloxacin'' ''ofloxacin'' ''MORNING'' ''Ofloxacin 0.3%'' None]
   \<and> whatsapp (sendNotification noneReached 0 []) =
       [\<lparr>recipient = ''+18573008938'', success = False\<rparr>,
        \<lparr>recipient = ''+13014615385'', success = False\<rparr>]
   \<and> messenger (sendNotification noneReached 0 []) = []
   \<and> ''2026-01-13-MORNING-ofloxacin'' \<notin> set (snd (fst (dispatch noneReached (\<lambda>i. 1768321800000) memoryStore
       [testReminder ''2026-01-13-MORNING-ofloxacin'' ''ofloxacin'' ''MORNING'' ''Ofloxacin 0.3%'' None])))
   \<and> pending (snd (dispatch noneReached (\<lambda>i. 1768321800000) memoryStore
       [testReminder ''2026-01-13-MORNING-ofloxacin'' ''ofloxacin'' ''MORNING'' ''Ofloxacin 0.3%'' None])) = []
   \<and> sentAt (fst (sendLoop noneReached (\<lambda>i. 1768321800000) 0
       [testReminder ''2026-01-13-MORNING-ofloxacin'' ''ofloxacin'' ''MORNING'' ''Ofloxacin 0.3%'' None]) ! 0) = None"
proof -
  let ?r = "testReminder ''2026-01-13-MORNING-ofloxacin'' ''ofloxacin'' ''MORNING'' ''Ofloxacin 0.3%'' None"
  let ?clock = "\<lambda>i::nat. 1768321800000::int"
  note t = dispatch_adds_no_reminder_without_success [of 0 "[?r]" noneReached ?clock memoryStore]
  have l: "0 < length [?r]"
    by simp
  have m: "message ([?r] ! 0) = []"
    by (simp add: testReminder_def)
  have w: "whatsapp (sendNotification noneReached 0 []) =
       [\<lparr>recipient = ''+18573008938'', success = False\<rparr>,
        \<lparr>recipient = ''+13014615385'', success = False\<rparr>]"
    by (simp add: sendNotification_def sendWhatsApp_def isMessengerConfigured_def noneReached_def Let_def)
  have g: "messenger (sendNotification noneReached 0 []) = []"
    by (simp add: sendNotification_def sendWhatsApp_def isMessengerConfigured_def noneReached_def Let_def)
  have n: "\<not> list_ex success (whatsapp (sendNotification noneReached 0 (message ([?r] ! 0)))
                            @ messenger (sendNotification noneReached 0 (message ([?r] ! 0))))"
    unfolding m w g by simp
  from t l n have c: "rem_id ([?r] ! 0) \<notin> set (snd (fst (dispatch noneReached ?clock memoryStore [?r])))
         \<and> pending (snd (dispatch noneReached ?clock memoryStore [?r])) = pending memoryStore
         \<and> sentAt (fst (sendLoop noneReached ?clock 0 [?r]) ! 0) = sentAt ([?r] ! 0)"
    by blast
  have i: "rem_id ([?r] ! 0) = ''2026-01-13-MORNING-ofloxacin''"
    by (simp add: testReminder_def)
  have a: "sentAt ([?r] ! 0) = None"
    by (simp add: testReminder_def)
  have p: "pending memoryStore = []"
    by (simp add: memoryStore_def)
  from c have "''2026-01-13-MORNING-ofloxacin'' \<notin> set (snd (fst (dispatch noneReached ?clock memoryStore [?r])))
         \<and> pending (snd (dispatch noneReached ?clock memoryStore [?r])) = []
         \<and> sentAt (fst (sendLoop noneReached ?clock 0 [?r]) ! 0) = None"
    unfolding i a p .
  with l w g show ?thesis
    by blast
qed

text \<open>
  The same run with the first of the two recipients reached: the reminder is not recorded
  either.
\<close>

lemma dispatch_records_nothing_when_one_reached:
  "map success (whatsapp (sendNotification oneReached 0 [])) = [True, False]
   \<and> pending (snd (dispatch oneReached (\<lambda>i. 1768321800000) memoryStore
       [testReminder ''2026-01-13-MORNING-ofloxacin'' ''ofloxacin'' ''MORNING'' ''Ofloxacin 0.3%'' None])) = []"
  by (simp add: dispatch_records_nothing memoryStore_def sendNotification_def sendWhatsApp_def
      isMessengerConfigured_def oneReached_def noneReached_def Let_def)

section \<open>Properties of the slot claim\<close>

lemma claimSlot_redis:
  "upstash s \<Longrightarrow>
   claimSlot tz now s slt date =
     (if kv_live now (sentKV s (claimKey tz slt date)) then (False, s)
      else (True, s\<lparr>sentKV := (sentKV s)(claimKey tz slt date \<mapsto>
              \<lparr>kv_value = now, kv_expires = Some (now + 7200 * 1000)\<rparr>)\<rparr>))"
  by (simp add: claimSlot_def setnx_def expire_def kv_live_def Let_def)

lemma claimSlot_memory:
  "\<not> upstash s \<Longrightarrow>
   claimSlot tz now s slt date =
     (if claimKey tz slt date \<in> sentSlots s then (False, s)
      else (True, s\<lparr>sentSlots := insert (claimKey tz slt date) (sentSlots s)\<rparr>))"
  by (simp add: claimSlot_def Let_def)

lemma claimSlots_Cons:
  "claimSlots tz s (c # cs) =
    (fst (claimSlot tz (call_at c) s (call_slot c) (call_date c)) #
       fst (claimSlots tz (snd (claimSlot tz (call_at c) s (call_slot c) (call_date c))) cs),
     snd (claimSlots tz (snd (claimSlot tz (call_at c) s (call_slot c) (call_date c))) cs))"
  by (simp split: prod.splits)

lemma held_live:
  "upstash s \<Longrightarrow> held key T s \<Longrightarrow> now < T \<Longrightarrow> kv_live now (sentKV s key)"
  by (auto simp: held_def kv_live_def split: option.splits)

lemma held_claimSlot_loses:
  "held key T s \<Longrightarrow> now < T \<Longrightarrow> claimKey tz slt date = key \<Longrightarrow>
   claimSlot tz now s slt date = (False, s)"
  by (cases "upstash s") (auto simp: claimSlot_redis claimSlot_memory held_live, simp add: held_def)

lemma held_claimSlot_other:
  "held key T s \<Longrightarrow> claimKey tz slt date \<noteq> key \<Longrightarrow>
   held key T (snd (claimSlot tz now s slt date))"
  by (cases "upstash s") (auto simp: claimSlot_redis claimSlot_memory held_def)

lemma held_after_win:
  "fst (claimSlot tz now s slt date) \<Longrightarrow>
   held (claimKey tz slt date) (now + 7200 * 1000) (snd (claimSlot tz now s slt date))"
  by (cases "upstash s") (auto simp: claimSlot_redis claimSlot_memory held_def split: if_splits)

lemma held_no_winner:
  "held key T s \<Longrightarrow> list_all (\<lambda>c. call_at c < T) calls \<Longrightarrow>
   winners tz key calls (fst (claimSlots tz s calls)) = []"
proof (induction calls arbitrary: s)
  case Nil
  then show ?case by (simp add: winners_def)
next
  case (Cons c cs)
  from Cons.prems have t: "call_at c < T" and r: "list_all (\<lambda>c. call_at c < T) cs"
    by simp_all
  show ?case
  proof (cases "claimKey tz (call_slot c) (call_date c) = key")
    case True
    from held_claimSlot_loses [OF Cons.prems(1) t True]
    have e: "claimSlot tz (call_at c) s (call_slot c) (call_date c) = (False, s)" .
    from Cons.IH [OF Cons.prems(1) r] show ?thesis
      by (simp add: claimSlots_Cons e winners_def del: claimSlots.simps(2))
  next
    case False
    from held_claimSlot_other [OF Cons.prems(1) False]
    have h: "held key T (snd (claimSlot tz (call_at c) s (call_slot c) (call_date c)))" .
    from Cons.IH [OF h r] False show ?thesis
      by (simp add: claimSlots_Cons winners_def del: claimSlots.simps(2))
  qed
qed

lemma one_winner:
  "list_all (\<lambda>c. list_all (\<lambda>d. call_at d < call_at c + 7200 * 1000) calls) calls \<Longrightarrow>
   length (winners tz key calls (fst (claimSlots tz s calls))) \<le> 1"
proof (induction calls arbitrary: s)
  case Nil
  then show ?case by (simp add: winners_def)
next
  case (Cons c cs)
  let ?s' = "snd (claimSlot tz (call_at c) s (call_slot c) (call_date c))"
  from Cons.prems have near: "list_all (\<lambda>d. call_at d < call_at c + 7200 * 1000) cs"
    by simp
  from Cons.prems have "list_all (\<lambda>c. list_all (\<lambda>d. call_at d < call_at c + 7200 * 1000) cs) cs"
    by (simp add: list_all_iff)
  from Cons.IH [OF this]
  have ih: "length (winners tz key cs (fst (claimSlots tz ?s' cs))) \<le> 1" .
  show ?case
  proof (cases "fst (claimSlot tz (call_at c) s (call_slot c) (call_date c))
                \<and> claimKey tz (call_slot c) (call_date c) = key")
    case True
    then have "held key (call_at c + 7200 * 1000) ?s'"
      using held_after_win [of tz "call_at c" s "call_slot c" "call_date c"] by auto
    from held_no_winner [OF this near]
    have "winners tz key cs (fst (claimSlots tz ?s' cs)) = []" .
    then show ?thesis
      using True by (simp add: claimSlots_Cons winners_def del: claimSlots.simps(2))
  next
    case False
    then show ?thesis
      using ih by (auto simp: claimSlots_Cons winners_def simp del: claimSlots.simps(2))
  qed
qed


lemma memory_no_winner:
  "\<not> upstash s \<Longrightarrow> key \<in> sentSlots s \<Longrightarrow>
   winners tz key calls (fst (claimSlots tz s calls)) = []"
proof (induction calls arbitrary: s)
  case Nil
  then show ?case by (simp add: winners_def)
next
  case (Cons c cs)
  let ?s' = "snd (claimSlot tz (call_at c) s (call_slot c) (call_date c))"
  from Cons.prems have "\<not> upstash ?s'" and "key \<in> sentSlots ?s'"
    by (simp_all add: claimSlot_memory)
  from Cons.IH [OF this] Cons.prems show ?case
    by (auto simp: claimSlots_Cons claimSlot_memory winners_def simp del: claimSlots.simps(2))
qed

lemma memory_one_winner:
  "\<not> upstash s \<Longrightarrow> length (winners tz key calls (fst (claimSlots tz s calls))) \<le> 1"
proof (induction calls arbitrary: s)
  case Nil
  then show ?case by (simp add: winners_def)
next
  case (Cons c cs)
  let ?s' = "snd (claimSlot tz (call_at c) s (call_slot c) (call_date c))"
  from Cons.prems have m: "\<not> upstash ?s'"
    by (simp add: claimSlot_memory)
  show ?case
  proof (cases "fst (claimSlot tz (call_at c) s (call_slot c) (call_date c))
                \<and> claimKey tz (call_slot c) (call_date c) = key")
    case True
    with Cons.prems have "key \<in> sentSlots ?s'"
      by (auto simp: claimSlot_memory split: if_splits)
    from memory_no_winner [OF m this]
    have "winners tz key cs (fst (claimSlots tz ?s' cs)) = []" .
    then show ?thesis
      using True by (simp add: claimSlots_Cons winners_def del: claimSlots.simps(2))
  next
    case False
    then show ?thesis
      using Cons.IH [OF m] by (auto simp: claimSlots_Cons winners_def simp del: claimSlots.simps(2))
  qed
qed

text \<open>
  Claim C3, as the code has it. A call returns \<^verbatim>\<open>true\<close> exactly when the key of its date
  and slot is not claimed at that instant: on Redis, when the key is absent or its expiry
  has passed; in memory, when the key is not in the set. On Redis a \<^verbatim>\<open>true\<close> return
  leaves the key with an expiry of 7200 seconds after the call; in memory it puts the key
  into the set, with no expiry. So among calls that all lie less than two hours apart at
  most one per key returns \<^verbatim>\<open>true\<close>, and in memory at most one ever does.
\<close>

theorem claimSlot_one_winner_until_expiry:
  "fst (claimSlot tz now s slt date) =
     (if upstash s then \<not> kv_live now (sentKV s (claimKey tz slt date))
      else claimKey tz slt date \<notin> sentSlots s)
   \<and> (upstash s \<and> fst (claimSlot tz now s slt date) \<longrightarrow>
        sentKV (snd (claimSlot tz now s slt date)) (claimKey tz slt date) =
          Some \<lparr>kv_value = now, kv_expires = Some (now + 7200 * 1000)\<rparr>)
   \<and> (\<not> upstash s \<and> fst (claimSlot tz now s slt date) \<longrightarrow>
        claimKey tz slt date \<in> sentSlots (snd (claimSlot tz now s slt date))
        \<and> sentKV (snd (claimSlot tz now s slt date)) = sentKV s)
   \<and> (list_all (\<lambda>c. list_all (\<lambda>d. call_at d < call_at c + 7200 * 1000) calls) calls \<longrightarrow>
        length (winners tz (claimKey tz slt date) calls (fst (claimSlots tz s calls))) \<le> 1)
   \<and> (\<not> upstash s \<longrightarrow>
        length (winners tz (claimKey tz slt date) calls (fst (claimSlots tz s calls))) \<le> 1)"
proof (intro conjI impI)
  show "fst (claimSlot tz now s slt date) =
     (if upstash s then \<not> kv_live now (sentKV s (claimKey tz slt date))
      else claimKey tz slt date \<notin> sentSlots s)"
    by (cases "upstash s") (simp_all add: claimSlot_redis claimSlot_memory)
next
  assume "upstash s \<and> fst (claimSlot tz now s slt date)"
  then show "sentKV (snd (claimSlot tz now s slt date)) (claimKey tz slt date) =
          Some \<lparr>kv_value = now, kv_expires = Some (now + 7200 * 1000)\<rparr>"
    by (auto simp: claimSlot_redis split: if_splits)
next
  assume a: "\<not> upstash s \<and> fst (claimSlot tz now s slt date)"
  then show "claimKey tz slt date \<in> sentSlots (snd (claimSlot tz now s slt date))"
    by (auto simp: claimSlot_memory split: if_splits)
  from a show "sentKV (snd (claimSlot tz now s slt date)) = sentKV s"
    by (auto simp: claimSlot_memory split: if_splits)
next
  assume "list_all (\<lambda>c. list_all (\<lambda>d. call_at d < call_at c + 7200 * 1000) calls) calls"
  then show "length (winners tz (claimKey tz slt date) calls (fst (claimSlots tz s calls))) \<le> 1"
    by (rule one_winner)
next
  assume "\<not> upstash s"
  then show "length (winners tz (claimKey tz slt date) calls (fst (claimSlots tz s calls))) \<le> 1"
    by (rule memory_one_winner)
qed

theorem claimSlot_one_winner_until_expiry_witness:
  "upstash redisStore
   \<and> fst (claimSlot PST 1768321800000 redisStore ''MORNING'' 1768321800000)
   \<and> sentKV (snd (claimSlot PST 1768321800000 redisStore ''MORNING'' 1768321800000))
        (claimKey PST ''MORNING'' 1768321800000) =
        Some \<lparr>kv_value = 1768321800000, kv_expires = Some 1768329000000\<rparr>
   \<and> list_all (\<lambda>c. list_all (\<lambda>d. call_at d < call_at c + 7200 * 1000)
        [morningCall 1768321800000, morningCall 1768321860000, morningCall 1768328999999])
        [morningCall 1768321800000, morningCall 1768321860000, morningCall 1768328999999]
   \<and> fst (claimSlots PST redisStore
        [morningCall 1768321800000, morningCall 1768321860000, morningCall 1768328999999]) =
        [True, False, False]
   \<and> length (winners PST (claimKey PST ''MORNING'' 1768321800000)
        [morningCall 1768321800000, morningCall 1768321860000, morningCall 1768328999999]
        (fst (claimSlots PST redisStore
          [morningCall 1768321800000, morningCall 1768321860000, morningCall 1768328999999]))) \<le> 1"
proof -
  let ?calls = "[morningCall 1768321800000, morningCall 1768321860000, morningCall 1768328999999]"
  note t = claimSlot_one_winner_until_expiry
    [of PST 1768321800000 redisStore "''MORNING''" 1768321800000 ?calls]
  have u: "upstash redisStore"
    by (simp add: redisStore_def)
  have w: "fst (claimSlot PST 1768321800000 redisStore ''MORNING'' 1768321800000)"
    by (simp add: claimSlot_def setnx_def kv_live_def redisStore_def memoryStore_def Let_def)
  have n: "list_all (\<lambda>c. list_all (\<lambda>d. call_at d < call_at c + 7200 * 1000) ?calls) ?calls"
    by (simp add: morningCall_def)
  have r: "fst (claimSlots PST redisStore ?calls) = [True, False, False]"
    by (simp add: claimSlot_def setnx_def expire_def kv_live_def redisStore_def memoryStore_def
        morningCall_def Let_def)
  from t u w have e: "sentKV (snd (claimSlot PST 1768321800000 redisStore ''MORNING'' 1768321800000))
        (claimKey PST ''MORNING'' 1768321800000) =
        Some \<lparr>kv_value = 1768321800000, kv_expires = Some (1768321800000 + 7200 * 1000)\<rparr>"
    by blast
  from t n have l: "length (winners PST (claimKey PST ''MORNING'' 1768321800000) ?calls
        (fst (claimSlots PST redisStore ?calls))) \<le> 1"
    by blast
  from e have e': "sentKV (snd (claimSlot PST 1768321800000 redisStore ''MORNING'' 1768321800000))
        (claimKey PST ''MORNING'' 1768321800000) =
        Some \<lparr>kv_value = 1768321800000, kv_expires = Some 1768329000000\<rparr>"
    by simp
  from u w e' n r l show ?thesis by blast
qed

text \<open>
  Against claim C3 as stated: on Redis, a second call for the same date and slot made two
  hours after the first finds the key expired and returns \<^verbatim>\<open>true\<close> as well.
\<close>

theorem claimSlot_wins_again_after_expiry:
  "fst (claimSlots PST redisStore
     [morningCall 1768321800000, morningCall (1768321800000 + 7200 * 1000)]) = [True, True]"
  by (simp add: claimSlot_def setnx_def expire_def kv_live_def redisStore_def memoryStore_def
      morningCall_def Let_def)

section \<open>Properties of the scheduler\<close>

lemma round_whole_days:
  "math_round_div (k * 86400000) 86400000 = k"
proof -
  have "2 * (k * 86400000) + 86400000 = 86400000 + k * (2 * 86400000)"
    by simp
  then have "(2 * (k * 86400000) + 86400000) div (2 * 86400000) = k + 86400000 div (2 * 86400000)"
    by (simp only: div_mult_self1 [of "2 * 86400000" 86400000 k])
  then show ?thesis
    by (simp add: math_round_div_def)
qed


lemma toDateOnly_less:
  "toDateOnly sys a < toDateOnly sys b \<longleftrightarrow> localDay sys a < localDay sys b"
  by (simp add: toDateOnly_def localTime_def MS_PER_DAY_def)

lemma getDayNumber_days:
  "getDayNumber sys cfg date = localDay sys date - localDay sys (surgeryDate cfg) + 1"
proof -
  have "localTime sys (localDay sys date) 12 - localTime sys (localDay sys (surgeryDate cfg)) 12 =
        (localDay sys date - localDay sys (surgeryDate cfg)) * 86400000"
    by (simp add: localTime_def MS_PER_DAY_def algebra_simps)
  then have "getDayNumber sys cfg date =
      math_round_div ((localDay sys date - localDay sys (surgeryDate cfg)) * 86400000) 86400000 + 1"
    by (simp only: getDayNumber_def Let_def) simp
  then show ?thesis
    by (simp only: round_whole_days)
qed


lemma isMedicationDue_eq:
  "isMedicationDue sys cfg sched med slt date =
     (let act = (case sched (med_id med) of
                   None \<Rightarrow> active med
                 | Some c \<Rightarrow> (case cs_active c of None \<Rightarrow> active med | Some a \<Rightarrow> a));
          freq = (case sched (med_id med) of
                    None \<Rightarrow> frequency med
                  | Some c \<Rightarrow> (case cs_frequency c of None \<Rightarrow> frequency med | Some f \<Rightarrow> f));
          day = localDay sys date
      in if \<not> act then Inr False
         else if (case startDate med of None \<Rightarrow> False | Some sd \<Rightarrow> day < localDay sys sd)
         then Inr False
         else if (case endDate med of None \<Rightarrow> False | Some ed \<Rightarrow> localDay sys ed < day)
         then Inr False
         else if asNeeded med then Inr False
         else if med_id med = ''atropine''
         then Inr (slt \<in> set (getAtropineSlots sys cfg date))
         else (case map_of (frequencySlots cfg) freq of
                 Some slots \<Rightarrow> Inr (slt \<in> set slots)
               | None \<Rightarrow> if freq \<in> set objectPrototypeKeys then Inl TypeError else Inr False))"
  by (auto simp: isMedicationDue_def Let_def toDateOnly_less split: option.splits)

lemma getAtropineSlots_eq:
  "getAtropineSlots sys cfg date =
       (case find (\<lambda>m. med_id m = ''atropine'') (leftEye cfg) of
          None \<Rightarrow> []
        | Some atropine \<Rightarrow>
           (case tapering atropine of
              None \<Rightarrow> []
            | Some t \<Rightarrow>
               if localDay sys date - localDay sys (surgeryDate cfg) + 1 = 1 then day1 t
               else if localDay sys date - localDay sys (surgeryDate cfg) + 1 = 2 then day2 t
               else day3plus t))"
  by (simp add: getAtropineSlots_def getDayNumber_days Let_def)


text \<open>
  Claim C5, as the code has it. \<^verbatim>\<open>isMedicationDue\<close> takes \<^verbatim>\<open>active\<close> and
  \<^verbatim>\<open>frequency\<close> from the custom schedule of the medication where that schedule has the
  field, and from the catalog entry otherwise; the id, the dates and the as-needed flag
  are always the catalog's. It answers, in this order: not due when that \<^verbatim>\<open>active\<close> is
  false; not due when the start date falls on a later calendar day than the date checked,
  or the end date on an earlier one (days of the zone of the process, the time of day
  playing no part); not due when as-needed. Then the medication whose id is
  \<^verbatim>\<open>atropine\<close>, whatever its frequency, is due exactly when the slot is in the list
  that the tapering table of the catalog's left-eye atropine entry gives for the day
  number (day 1, day 2, any other day), the day number being the number of calendar days
  since the surgery date plus one; with no such entry or table the list is empty. Every
  other medication, one of frequency \<^verbatim>\<open>tapering\<close> included, is due exactly when the
  slot is in the list the frequency table has for that frequency. When the table has no
  list for it, the medication is not due, unless the frequency names a property of
  \<^verbatim>\<open>Object.prototype\<close>: then the check raises a \<^verbatim>\<open>TypeError\<close> instead of answering.
\<close>

theorem isMedicationDue_in_order:
  "isMedicationDue sys cfg sched med slt date =
     (let act = (case sched (med_id med) of
                   None \<Rightarrow> active med
                 | Some c \<Rightarrow> (case cs_active c of None \<Rightarrow> active med | Some a \<Rightarrow> a));
          freq = (case sched (med_id med) of
                    None \<Rightarrow> frequency med
                  | Some c \<Rightarrow> (case cs_frequency c of None \<Rightarrow> frequency med | Some f \<Rightarrow> f));
          day = localDay sys date
      in if \<not> act then Inr False
         else if (case startDate med of None \<Rightarrow> False | Some sd \<Rightarrow> day < localDay sys sd)
         then Inr False
         else if (case endDate med of None \<Rightarrow> False | Some ed \<Rightarrow> localDay sys ed < day)
         then Inr False
         else if asNeeded med then Inr False
         else if med_id med = ''atropine''
         then Inr (slt \<in> set (getAtropineSlots sys cfg date))
         else (case map_of (frequencySlots cfg) freq of
                 Some slots \<Rightarrow> Inr (slt \<in> set slots)
               | None \<Rightarrow> if freq \<in> set objectPrototypeKeys then Inl TypeError else Inr False))
   \<and> getAtropineSlots sys cfg date =
       (case find (\<lambda>m. med_id m = ''atropine'') (leftEye cfg) of
          None \<Rightarrow> []
        | Some atropine \<Rightarrow>
           (case tapering atropine of
              None \<Rightarrow> []
            | Some t \<Rightarrow>
               if localDay sys date - localDay sys (surgeryDate cfg) + 1 = 1 then day1 t
               else if localDay sys date - localDay sys (surgeryDate cfg) + 1 = 2 then day2 t
               else day3plus t))"
  using isMedicationDue_eq [of sys cfg sched med slt date] getAtropineSlots_eq [of sys cfg date]
  by (rule conjI)

text \<open>
  The theorem on the catalog, on the surgery day and two days later, in the zone UTC-8:
  atropine at midday of day 1 and of day 3; ofloxacin, four times a day in the catalog, at
  midday with no custom schedule, with one that sets \<^verbatim>\<open>active\<close> to false, with one that
  sets the frequency to \<^verbatim>\<open>2x_daily\<close>, with one that sets it to \<^verbatim>\<open>constructor\<close> and with
  one that sets it to \<^verbatim>\<open>hourly\<close>, which the table does not have; and the oral
  prednisolone, which starts three days after the surgery, in the morning.
\<close>

theorem isMedicationDue_in_order_witness:
  "isMedicationDue (- 480) catalog (\<lambda>i. None) catalog_atropine ''MIDDAY'' SURGERY_DATE = Inr True
   \<and> getAtropineSlots (- 480) catalog SURGERY_DATE = [''MORNING'', ''MIDDAY'', ''EVENING'']
   \<and> isMedicationDue (- 480) catalog (\<lambda>i. None) catalog_atropine ''MIDDAY'' (SURGERY_DATE + 2 * MS_PER_DAY)
       = Inr False
   \<and> getAtropineSlots (- 480) catalog (SURGERY_DATE + 2 * MS_PER_DAY) = [''MORNING'']
   \<and> isMedicationDue (- 480) catalog (\<lambda>i. None) catalog_ofloxacin ''MIDDAY'' SURGERY_DATE = Inr True
   \<and> isMedicationDue (- 480) catalog (customActive ''ofloxacin'' False) catalog_ofloxacin ''MIDDAY''
       SURGERY_DATE = Inr False
   \<and> isMedicationDue (- 480) catalog (customFrequency ''ofloxacin'' ''2x_daily'') catalog_ofloxacin
       ''MIDDAY'' SURGERY_DATE = Inr False
   \<and> isMedicationDue (- 480) catalog (customFrequency ''ofloxacin'' ''constructor'') catalog_ofloxacin
       ''MIDDAY'' SURGERY_DATE = Inl TypeError
   \<and> isMedicationDue (- 480) catalog (customFrequency ''ofloxacin'' ''hourly'') catalog_ofloxacin
       ''MIDDAY'' SURGERY_DATE = Inr False
   \<and> isMedicationDue (- 480) catalog (\<lambda>i. None) catalog_prednisolone_oral ''MORNING'' SURGERY_DATE
       = Inr False
   \<and> isMedicationDue (- 480) catalog (\<lambda>i. None) catalog_prednisolone_oral ''MORNING''
       (SURGERY_DATE + 3 * MS_PER_DAY) = Inr True"
proof -
  have a: "isMedicationDue (- 480) catalog (\<lambda>i. None) catalog_atropine ''MIDDAY'' SURGERY_DATE = Inr True
   \<and> getAtropineSlots (- 480) catalog SURGERY_DATE = [''MORNING'', ''MIDDAY'', ''EVENING'']"
    unfolding isMedicationDue_in_order
      [of "- 480" catalog "\<lambda>i. None" catalog_atropine "''MIDDAY''" SURGERY_DATE]
    by code_simp
  have b: "isMedicationDue (- 480) catalog (\<lambda>i. None) catalog_atropine ''MIDDAY'' (SURGERY_DATE + 2 * MS_PER_DAY)
       = Inr False
   \<and> getAtropineSlots (- 480) catalog (SURGERY_DATE + 2 * MS_PER_DAY) = [''MORNING'']"
    unfolding isMedicationDue_in_order
      [of "- 480" catalog "\<lambda>i. None" catalog_atropine "''MIDDAY''" "SURGERY_DATE + 2 * MS_PER_DAY"]
    by code_simp
  have c: "isMedicationDue (- 480) catalog (\<lambda>i. None) catalog_ofloxacin ''MIDDAY'' SURGERY_DATE = Inr True"
    unfolding isMedicationDue_in_order
      [of "- 480" catalog "\<lambda>i. None" catalog_ofloxacin "''MIDDAY''" SURGERY_DATE, THEN conjunct1]
    by code_simp
  have d: "isMedicationDue (- 480) catalog (customActive ''ofloxacin'' False) catalog_ofloxacin ''MIDDAY''
       SURGERY_DATE = Inr False"
    unfolding isMedicationDue_in_order
      [of "- 480" catalog "customActive ''ofloxacin'' False" catalog_ofloxacin "''MIDDAY''" SURGERY_DATE,
       THEN conjunct1]
    by code_simp
  have e: "isMedicationDue (- 480) catalog (customFrequency ''ofloxacin'' ''2x_daily'') catalog_ofloxacin
       ''MIDDAY'' SURGERY_DATE = Inr False"
    unfolding isMedicationDue_in_order
      [of "- 480" catalog "customFrequency ''ofloxacin'' ''2x_daily''" catalog_ofloxacin "''MIDDAY''"
        SURGERY_DATE, THEN conjunct1]
    by code_simp
  have f: "isMedicationDue (- 480) catalog (customFrequency ''ofloxacin'' ''constructor'') catalog_ofloxacin
       ''MIDDAY'' SURGERY_DATE = Inl TypeError"
    unfolding isMedicationDue_in_order
      [of "- 480" catalog "customFrequency ''ofloxacin'' ''constructor''" catalog_ofloxacin "''MIDDAY''"
        SURGERY_DATE, THEN conjunct1]
    by code_simp
  have g: "isMedicationDue (- 480) catalog (customFrequency ''ofloxacin'' ''hourly'') catalog_ofloxacin
       ''MIDDAY'' SURGERY_DATE = Inr False"
    unfolding isMedicationDue_in_order
      [of "- 480" catalog "customFrequency ''ofloxacin'' ''hourly''" catalog_ofloxacin "''MIDDAY''"
        SURGERY_DATE, THEN conjunct1]
    by code_simp
  have h: "isMedicationDue (- 480) catalog (\<lambda>i. None) catalog_prednisolone_oral ''MORNING'' SURGERY_DATE
       = Inr False"
    unfolding isMedicationDue_in_order
      [of "- 480" catalog "\<lambda>i. None" catalog_prednisolone_oral "''MORNING''" SURGERY_DATE,
       THEN conjunct1]
    by code_simp
  have i: "isMedicationDue (- 480) catalog (\<lambda>i. None) catalog_prednisolone_oral ''MORNING''
       (SURGERY_DATE + 3 * MS_PER_DAY) = Inr True"
    unfolding isMedicationDue_in_order
      [of "- 480" catalog "\<lambda>i. None" catalog_prednisolone_oral "''MORNING''"
        "SURGERY_DATE + 3 * MS_PER_DAY", THEN conjunct1]
    by code_simp
  from a b c d e f g h i show ?thesis
    by blast
qed

text \<open>
  Against claim C5 as stated. On the surgery day, day 1, a tapering medication with the
  id \<^verbatim>\<open>atropine-right\<close> and \<^verbatim>\<open>MORNING\<close> in the day-1 list of its table is not due in
  the morning; and atropine, its frequency set to \<^verbatim>\<open>4x_daily\<close> by a custom schedule,
  is not due at night although \<^verbatim>\<open>NIGHT\<close> is a slot of that frequency.
\<close>

theorem isMedicationDue_tapering_is_by_id:
  "frequency atropine_rightEye = ''tapering''
   \<and> getDayNumber 0 catalog SURGERY_DATE = 1
   \<and> map_option day1 (tapering atropine_rightEye) = Some [''MORNING'', ''MIDDAY'', ''EVENING'']
   \<and> isMedicationDue 0 catalog (\<lambda>i. None) atropine_rightEye ''MORNING'' SURGERY_DATE = Inr False
   \<and> map_option cs_frequency (atropine_4x ''atropine'') = Some (Some ''4x_daily'')
   \<and> map_of (frequencySlots catalog) ''4x_daily'' = Some [''MORNING'', ''MIDDAY'', ''EVENING'', ''NIGHT'']
   \<and> isMedicationDue 0 catalog atropine_4x catalog_atropine ''NIGHT'' SURGERY_DATE = Inr False"
  by code_simp

section \<open>Properties of the reminder generator\<close>

lemma locationReminders_Cons:
  "locationReminders ds slt dn loc g (med # meds) =
    ((if str_includes loc ''eye'' then g else 0,
      \<lparr>rem_id = ds @ ''-'' @ slot_str slt @ ''-'' @ med_id med,
       medicationId = med_id med,
       medication = med,
       slot = slot_str slt,
       dayNumber = dn,
       scheduledTime = formatted (getStaggeredTime slt (if str_includes loc ''eye'' then g else 0)),
       message = formatIndividualMessage med
          (formatted (getStaggeredTime slt (if str_includes loc ''eye'' then g else 0))) dn,
       confirmed = False,
       sentAt = None\<rparr>)
     # fst (locationReminders ds slt dn loc (if str_includes loc ''eye'' then g + 1 else g) meds),
     snd (locationReminders ds slt dn loc (if str_includes loc ''eye'' then g + 1 else g) meds))"
  by (simp add: Let_def split: prod.splits)

lemma locationReminders_meds:
  "map (\<lambda>p. medication (snd p)) (fst (locationReminders ds slt dn loc g meds)) = meds"
  by (induction meds arbitrary: g) (simp_all add: locationReminders_Cons del: locationReminders.simps(2))

lemma upt_shift:
  "g # [Suc g ..< Suc g + n] = [g ..< g + Suc n]"
  by (simp add: upt_conv_Cons)

lemma locationReminders_eye:
  "str_includes loc ''eye'' \<Longrightarrow>
   map fst (fst (locationReminders ds slt dn loc g meds)) = [g ..< g + length meds]
   \<and> snd (locationReminders ds slt dn loc g meds) = g + length meds"
proof (induction meds arbitrary: g)
  case Nil
  then show ?case by simp
next
  case (Cons med meds)
  from Cons.IH [OF Cons.prems, of "Suc g"] Cons.prems upt_shift [of g "length meds"]
  show ?case
    by (simp add: locationReminders_Cons del: locationReminders.simps(2) upt_Suc)
qed

lemma locationReminders_other:
  "\<not> str_includes loc ''eye'' \<Longrightarrow>
   map fst (fst (locationReminders ds slt dn loc g meds)) = replicate (length meds) 0
   \<and> snd (locationReminders ds slt dn loc g meds) = g"
  by (induction meds arbitrary: g)
     (simp_all add: locationReminders_Cons del: locationReminders.simps(2))

lemma locationReminders_built:
  "list_all (\<lambda>(i, r).
      rem_id r = ds @ ''-'' @ slot_str slt @ ''-'' @ med_id (medication r)
      \<and> medicationId r = med_id (medication r)
      \<and> slot r = slot_str slt
      \<and> dayNumber r = dn
      \<and> scheduledTime r = formatted (getStaggeredTime slt i)
      \<and> message r = formatIndividualMessage (medication r) (formatted (getStaggeredTime slt i)) dn
      \<and> sentAt r = None)
    (fst (locationReminders ds slt dn loc g meds))"
  by (induction meds arbitrary: g)
     (simp_all add: locationReminders_Cons del: locationReminders.simps(2))

lemma hm_mod:
  "(n div 60 mod 24) * 60 + n mod 60 = (n::nat) mod 1440"
proof -
  have "n mod 1440 = n mod (60 * 24)" by simp
  also have "\<dots> = n mod 60 + 60 * (n div 60 mod 24)"
    by (simp only: mod_mult2_eq)
  finally show ?thesis by simp
qed

lemma minuteOfDay_getStaggeredTime:
  "minuteOfDay (getStaggeredTime slt i) =
     (fst (baseTimes slt) * 60 + snd (baseTimes slt) + i * 6) mod 1440"
  by (simp add: minuteOfDay_def getStaggeredTime_def EYE_DROP_STAGGER_MINUTES_def Let_def hm_mod
      split: prod.splits)

lemma minuteOfDay_next:
  "minuteOfDay (getStaggeredTime slt (Suc i)) = (minuteOfDay (getStaggeredTime slt i) + 6) mod 1440"
  unfolding minuteOfDay_getStaggeredTime by (simp add: mod_simps algebra_simps)

lemma staggeredReminders_Cons:
  "staggeredReminders ds slt dn due g (loc # locs) =
     fst (locationReminders ds slt dn loc g (filter (\<lambda>med. location med = loc) due))
     @ staggeredReminders ds slt dn due
         (snd (locationReminders ds slt dn loc g (filter (\<lambda>med. location med = loc) due))) locs"
  by (simp add: Let_def split: prod.splits)

lemma eye_locations:
  "str_includes ''LEFT eye'' ''eye''" "str_includes ''RIGHT eye'' ''eye''"
  "\<not> str_includes ''ORAL'' ''eye''"
  by simp_all

lemma staggerTrace_parts:
  "staggerTrace sys cfg sched slt date =
     leftPart sys cfg sched slt date @ rightPart sys cfg sched slt date @ oralPart sys cfg sched slt date"
  using locationReminders_eye [OF eye_locations(1)] locationReminders_eye [OF eye_locations(2)]
  by (simp add: staggerTrace_def locationOrder_def staggeredReminders_Cons leftPart_def rightPart_def
      oralPart_def del: staggeredReminders.simps(2))

lemma part_locations:
  "list_all (\<lambda>med. location med = loc) meds \<Longrightarrow>
   list_all (\<lambda>p. location (medication (snd p)) = loc) (fst (locationReminders ds slt dn loc g meds))"
  by (induction meds arbitrary: g)
     (simp_all add: locationReminders_Cons del: locationReminders.simps(2))

lemma filter_location: "list_all (\<lambda>med. location med = loc) (filter (\<lambda>med. location med = loc) due)"
  by (simp add: list_all_iff)

lemma filter_all: "list_all P xs \<Longrightarrow> filter P xs = xs"
  by (induction xs) auto

lemma filter_none: "list_all (\<lambda>x. \<not> P x) xs \<Longrightarrow> filter P xs = []"
  by (induction xs) auto

lemma list_all_mono: "list_all P xs \<Longrightarrow> (\<And>x. P x \<Longrightarrow> Q x) \<Longrightarrow> list_all Q xs"
  by (induction xs) auto

lemma leftPart_eye: "list_all isEyeDrop (leftPart sys cfg sched slt date)"
  unfolding leftPart_def
  by (rule list_all_mono [OF part_locations [OF filter_location]]) (simp add: isEyeDrop_def)

lemma rightPart_eye: "list_all isEyeDrop (rightPart sys cfg sched slt date)"
  unfolding rightPart_def
  by (rule list_all_mono [OF part_locations [OF filter_location]]) (simp add: isEyeDrop_def)

lemma oralPart_not_eye: "list_all (\<lambda>p. \<not> isEyeDrop p) (oralPart sys cfg sched slt date)"
  unfolding oralPart_def
  by (rule list_all_mono [OF part_locations [OF filter_location]]) (simp add: isEyeDrop_def)

lemma eye_drops_of_trace:
  "filter isEyeDrop (staggerTrace sys cfg sched slt date) =
     leftPart sys cfg sched slt date @ rightPart sys cfg sched slt date"
  by (simp add: staggerTrace_parts filter_all [OF leftPart_eye] filter_all [OF rightPart_eye]
      filter_none [OF oralPart_not_eye])

lemma others_of_trace:
  "filter (\<lambda>p. \<not> isEyeDrop p) (staggerTrace sys cfg sched slt date) = oralPart sys cfg sched slt date"
  using leftPart_eye [of sys cfg sched slt date] rightPart_eye [of sys cfg sched slt date]
    filter_all [OF oralPart_not_eye, of sys cfg sched slt date]
  by (simp add: staggerTrace_parts filter_none)

lemma eye_drop_indices:
  "map fst (filter isEyeDrop (staggerTrace sys cfg sched slt date)) =
     [0 ..< length (filter isEyeDrop (staggerTrace sys cfg sched slt date))]"
proof -
  let ?L = "filter (\<lambda>med. location med = ''LEFT eye'') (dueMeds sys cfg sched slt date)"
  let ?R = "filter (\<lambda>med. location med = ''RIGHT eye'') (dueMeds sys cfg sched slt date)"
  have l: "map fst (leftPart sys cfg sched slt date) = [0 ..< length ?L]"
    using locationReminders_eye [OF eye_locations(1)] by (simp add: leftPart_def)
  have r: "map fst (rightPart sys cfg sched slt date) = [length ?L ..< length ?L + length ?R]"
    using locationReminders_eye [OF eye_locations(2)] by (simp add: rightPart_def)
  have u: "[0 ..< length ?L + length ?R] = [0 ..< length ?L] @ [length ?L ..< length ?L + length ?R]"
    by (rule upt_add_eq_append) simp
  have "map fst (leftPart sys cfg sched slt date @ rightPart sys cfg sched slt date) =
        [0 ..< length ?L + length ?R]"
    unfolding u using l r by simp
  moreover have "length (leftPart sys cfg sched slt date @ rightPart sys cfg sched slt date) =
        length ?L + length ?R"
    using arg_cong [OF l, of length] arg_cong [OF r, of length] by simp
  ultimately show ?thesis
    by (simp only: eye_drops_of_trace)
qed

lemma trace_medications:
  "map (\<lambda>p. medication (snd p)) (staggerTrace sys cfg sched slt date) =
     filter (\<lambda>med. location med = ''LEFT eye'') (dueMeds sys cfg sched slt date)
     @ filter (\<lambda>med. location med = ''RIGHT eye'') (dueMeds sys cfg sched slt date)
     @ filter (\<lambda>med. location med = ''ORAL'') (dueMeds sys cfg sched slt date)"
  by (simp add: staggerTrace_parts leftPart_def rightPart_def oralPart_def locationReminders_meds)

lemma trace_built:
  "list_all (\<lambda>(i, r).
      rem_id r = toISODate date @ ''-'' @ slot_str slt @ ''-'' @ med_id (medication r)
      \<and> medicationId r = med_id (medication r)
      \<and> slot r = slot_str slt
      \<and> dayNumber r = getDayNumber sys cfg date
      \<and> scheduledTime r = formatted (getStaggeredTime slt i)
      \<and> message r = formatIndividualMessage (medication r) (formatted (getStaggeredTime slt i))
            (getDayNumber sys cfg date)
      \<and> sentAt r = None)
    (staggerTrace sys cfg sched slt date)"
  unfolding staggerTrace_parts leftPart_def rightPart_def oralPart_def list_all_append
  by (intro conjI locationReminders_built)

lemma trace_times:
  "list_all (\<lambda>(i, r). scheduledTime r = formatted (getStaggeredTime slt i))
    (staggerTrace sys cfg sched slt date)"
  by (rule list_all_mono [OF trace_built]) auto

lemma base_time:
  "formatted (getStaggeredTime slt 0) = formatTime (fst (baseTimes slt)) (snd (baseTimes slt))
   \<and> minuteOfDay (getStaggeredTime slt 0) = fst (baseTimes slt) * 60 + snd (baseTimes slt)"
  by (cases slt) (simp_all add: getStaggeredTime_def minuteOfDay_def Let_def)

lemma oralPart_indices:
  "list_all (\<lambda>p. fst p = 0) (oralPart sys cfg sched slt date)"
proof -
  have "map fst (oralPart sys cfg sched slt date) =
        replicate (length (filter (\<lambda>med. location med = ''ORAL'') (dueMeds sys cfg sched slt date))) 0"
    using locationReminders_other [OF eye_locations(3)] by (simp add: oralPart_def)
  then have "list_all (\<lambda>n. n = 0) (map fst (oralPart sys cfg sched slt date))"
    by (simp add: list_all_iff)
  then show ?thesis
    by (simp add: list_all_iff)
qed

lemma others_at_base_time:
  "list_all (\<lambda>(i, r). i = 0 \<and> scheduledTime r = formatTime (fst (baseTimes slt)) (snd (baseTimes slt)))
     (filter (\<lambda>p. \<not> isEyeDrop p) (staggerTrace sys cfg sched slt date))"
proof -
  have t: "list_all (\<lambda>(i, r). scheduledTime r = formatted (getStaggeredTime slt i))
     (oralPart sys cfg sched slt date)"
    using trace_times [of slt sys cfg sched date] by (simp add: staggerTrace_parts)
  from oralPart_indices [of sys cfg sched slt date] t
  have "list_all (\<lambda>(i, r). i = 0 \<and> scheduledTime r = formatted (getStaggeredTime slt 0))
     (oralPart sys cfg sched slt date)"
    by (fastforce simp: list_all_iff)
  then show ?thesis
    by (simp add: others_of_trace base_time)
qed

lemma returned_reminders:
  assumes "getCurrentTimeSlot tz date = Some slt
        \<and> getIndividualReminders tz sys cfg sched date = Inr g"
  shows "g_reminders g = map snd (staggerTrace sys cfg sched slt date)"
  using assms by (auto simp: getIndividualReminders_def split: if_splits)

text \<open>
  Claim C8. In the trace of one generated batch the eye drops carry the stagger indices
  0, 1, 2, ... in the order of the trace, which lists the due medications of the left
  eye, then of the right eye, then the oral ones: one counter runs through both eye
  locations. Each reminder shows the time \<^verbatim>\<open>getStaggeredTime\<close> gives for its index,
  whose minute of the day is the base time of the slot plus six minutes per index, modulo
  24 hours; so from one index to the next the time moves by six minutes, modulo 24 hours.
  Every entry that is not an eye drop has the index 0 and shows the base time of the
  slot. The reminders \<^verbatim>\<open>getIndividualReminders\<close> returns are those of the trace; and it
  returns whenever no due check raises and no due medication has a location that names
  a property of \<^verbatim>\<open>Object.prototype\<close>.
\<close>

theorem stagger_indices_and_times:
  "map fst (filter isEyeDrop (staggerTrace sys cfg sched slt date)) =
     [0 ..< length (filter isEyeDrop (staggerTrace sys cfg sched slt date))]
   \<and> map (\<lambda>p. medication (snd p)) (staggerTrace sys cfg sched slt date) =
       filter (\<lambda>med. location med = ''LEFT eye'') (dueMeds sys cfg sched slt date)
       @ filter (\<lambda>med. location med = ''RIGHT eye'') (dueMeds sys cfg sched slt date)
       @ filter (\<lambda>med. location med = ''ORAL'') (dueMeds sys cfg sched slt date)
   \<and> list_all (\<lambda>(i, r). scheduledTime r = formatted (getStaggeredTime slt i))
       (staggerTrace sys cfg sched slt date)
   \<and> minuteOfDay (getStaggeredTime slt i) =
       (fst (baseTimes slt) * 60 + snd (baseTimes slt) + i * 6) mod 1440
   \<and> minuteOfDay (getStaggeredTime slt (Suc i)) = (minuteOfDay (getStaggeredTime slt i) + 6) mod 1440
   \<and> list_all (\<lambda>(i, r). i = 0 \<and> scheduledTime r = formatTime (fst (baseTimes slt)) (snd (baseTimes slt)))
       (filter (\<lambda>p. \<not> isEyeDrop p) (staggerTrace sys cfg sched slt date))
   \<and> (getCurrentTimeSlot tz date = Some slt
        \<and> getIndividualReminders tz sys cfg sched date = Inr g \<longrightarrow>
        g_reminders g = map snd (staggerTrace sys cfg sched slt date))
   \<and> (getCurrentTimeSlot tz date = Some slt
        \<and> \<not> list_ex (\<lambda>(med, isDue). isDue = Inl TypeError) (dueChecks sys cfg sched slt date)
        \<and> \<not> list_ex (\<lambda>med. location med \<in> set objectPrototypeKeys) (dueMeds sys cfg sched slt date)
       \<longrightarrow> map_sum id g_reminders (getIndividualReminders tz sys cfg sched date) =
             Inr (map snd (staggerTrace sys cfg sched slt date)))"
proof (intro conjI impI)
  show "map fst (filter isEyeDrop (staggerTrace sys cfg sched slt date)) =
     [0 ..< length (filter isEyeDrop (staggerTrace sys cfg sched slt date))]"
    by (rule eye_drop_indices)
  show "map (\<lambda>p. medication (snd p)) (staggerTrace sys cfg sched slt date) =
       filter (\<lambda>med. location med = ''LEFT eye'') (dueMeds sys cfg sched slt date)
       @ filter (\<lambda>med. location med = ''RIGHT eye'') (dueMeds sys cfg sched slt date)
       @ filter (\<lambda>med. location med = ''ORAL'') (dueMeds sys cfg sched slt date)"
    by (rule trace_medications)
  show "list_all (\<lambda>(i, r). scheduledTime r = formatted (getStaggeredTime slt i))
       (staggerTrace sys cfg sched slt date)"
    by (rule trace_times)
  show "minuteOfDay (getStaggeredTime slt i) =
       (fst (baseTimes slt) * 60 + snd (baseTimes slt) + i * 6) mod 1440"
    by (rule minuteOfDay_getStaggeredTime)
  show "minuteOfDay (getStaggeredTime slt (Suc i)) = (minuteOfDay (getStaggeredTime slt i) + 6) mod 1440"
    by (rule minuteOfDay_next)
  show "list_all (\<lambda>(i, r). i = 0 \<and> scheduledTime r = formatTime (fst (baseTimes slt)) (snd (baseTimes slt)))
       (filter (\<lambda>p. \<not> isEyeDrop p) (staggerTrace sys cfg sched slt date))"
    by (rule others_at_base_time)
next
  assume "getCurrentTimeSlot tz date = Some slt
        \<and> getIndividualReminders tz sys cfg sched date = Inr g"
  then show "g_reminders g = map snd (staggerTrace sys cfg sched slt date)"
    by (rule returned_reminders)
next
  assume "getCurrentTimeSlot tz date = Some slt
        \<and> \<not> list_ex (\<lambda>(med, isDue). isDue = Inl TypeError) (dueChecks sys cfg sched slt date)
        \<and> \<not> list_ex (\<lambda>med. location med \<in> set objectPrototypeKeys) (dueMeds sys cfg sched slt date)"
  then show "map_sum id g_reminders (getIndividualReminders tz sys cfg sched date) =
             Inr (map snd (staggerTrace sys cfg sched slt date))"
    by (simp add: getIndividualReminders_def)
qed

theorem stagger_indices_and_times_witness:
  "getCurrentTimeSlot PST 1768273500000 = Some EVENING
   \<and> map fst (filter isEyeDrop (staggerTrace 0 catalog (\<lambda>i. None) EVENING 1768273500000)) =
       [0, 1, 2, 3, 4, 5]
   \<and> map (\<lambda>(i, r). (i, location (medication r), scheduledTime r))
         (staggerTrace 0 catalog (\<lambda>i. None) EVENING 1768273500000) =
       [(0, ''LEFT eye'', ''7:00 PM''), (1, ''LEFT eye'', ''7:06 PM''), (2, ''LEFT eye'', ''7:12 PM''),
        (3, ''LEFT eye'', ''7:18 PM''), (4, ''RIGHT eye'', ''7:24 PM''), (5, ''RIGHT eye'', ''7:30 PM''),
        (0, ''ORAL'', ''7:00 PM'')]
   \<and> map_sum id g_reminders (getIndividualReminders PST 0 catalog (\<lambda>i. None) 1768273500000) =
       Inr (map snd (staggerTrace 0 catalog (\<lambda>i. None) EVENING 1768273500000))"
proof -
  note t = stagger_indices_and_times
    [where sys = 0 and cfg = catalog and sched = "\<lambda>i. None" and slt = EVENING
       and date = 1768273500000 and i = 0 and tz = PST]
  have s: "getCurrentTimeSlot PST 1768273500000 = Some EVENING"
    by code_simp
  have c: "\<not> list_ex (\<lambda>(med, isDue). isDue = Inl TypeError)
             (dueChecks 0 catalog (\<lambda>i. None) EVENING 1768273500000)"
    by code_simp
  have l: "\<not> list_ex (\<lambda>med. location med \<in> set objectPrototypeKeys)
             (dueMeds 0 catalog (\<lambda>i. None) EVENING 1768273500000)"
    by code_simp
  have n: "length (filter isEyeDrop (staggerTrace 0 catalog (\<lambda>i. None) EVENING 1768273500000)) = 6"
    by code_simp
  have v: "map (\<lambda>(i, r). (i, location (medication r), scheduledTime r))
         (staggerTrace 0 catalog (\<lambda>i. None) EVENING 1768273500000) =
       [(0, ''LEFT eye'', ''7:00 PM''), (1, ''LEFT eye'', ''7:06 PM''), (2, ''LEFT eye'', ''7:12 PM''),
        (3, ''LEFT eye'', ''7:18 PM''), (4, ''RIGHT eye'', ''7:24 PM''), (5, ''RIGHT eye'', ''7:30 PM''),
        (0, ''ORAL'', ''7:00 PM'')]"
    by code_simp
  have u: "[0 ..< 6] = [0, 1, 2, 3, 4, 5::nat]"
    by (simp add: upt_rec)
  from t have "map fst (filter isEyeDrop (staggerTrace 0 catalog (\<lambda>i. None) EVENING 1768273500000)) =
     [0 ..< length (filter isEyeDrop (staggerTrace 0 catalog (\<lambda>i. None) EVENING 1768273500000))]"
    by (rule conjunct1)
  then have a: "map fst (filter isEyeDrop (staggerTrace 0 catalog (\<lambda>i. None) EVENING 1768273500000)) =
       [0, 1, 2, 3, 4, 5]"
    by (simp only: n u)
  from t s c l have g: "map_sum id g_reminders (getIndividualReminders PST 0 catalog (\<lambda>i. None) 1768273500000) =
       Inr (map snd (staggerTrace 0 catalog (\<lambda>i. None) EVENING 1768273500000))"
    by blast
  from s a v g show ?thesis by blast
qed

lemma minutes_of_day:
  "(n div 60 mod 24) * 60 + n mod 60 = (n::int) mod 1440"
proof -
  have "n mod 1440 = n mod (60 * 24)" by simp
  also have "\<dots> = 60 * (n div 60 mod 24) + n mod 60"
    by (rule zmod_zmult2_eq) simp
  finally show ?thesis by simp
qed

lemma currentTime_minutes:
  "currentTime tz date = (toZonedTime tz date div 60000) mod 1440"
proof -
  have "toZonedTime tz date div 3600000 = toZonedTime tz date div (60000 * 60)" by simp
  also have "\<dots> = toZonedTime tz date div 60000 div 60"
    by (rule zdiv_zmult2_eq) simp
  finally show ?thesis
    by (simp add: currentTime_def Let_def minutes_of_day)
qed

lemma zonedDay_minutes:
  "zonedDay tz date = (toZonedTime tz date div 60000) div 1440"
proof -
  have "toZonedTime tz date div MS_PER_DAY = toZonedTime tz date div (60000 * 1440)"
    by (simp add: MS_PER_DAY_def)
  also have "\<dots> = toZonedTime tz date div 60000 div 1440"
    by (rule zdiv_zmult2_eq) simp
  finally show ?thesis
    by (simp add: zonedDay_def)
qed

lemma utcDay_minutes:
  "utcDay date = (toZonedTime tz date div 60000 - tz date) div 1440"
proof -
  have "date = (toZonedTime tz date) + (- tz date) * 60000"
    by (simp add: toZonedTime_def)
  then have "date div 60000 = toZonedTime tz date div 60000 + (- tz date)"
    by (metis div_mult_self1 add.commute zero_neq_numeral)
  moreover have "date div MS_PER_DAY = date div (60000 * 1440)"
    by (simp add: MS_PER_DAY_def)
  moreover have "date div (60000 * 1440) = date div 60000 div 1440"
    by (rule zdiv_zmult2_eq) simp
  ultimately show ?thesis
    by (simp add: utcDay_def)
qed

lemma evening_window:
  "getCurrentTimeSlot tz date = Some EVENING \<Longrightarrow>
   1140 \<le> currentTime tz date \<and> currentTime tz date < 1155"
  by (simp add: getCurrentTimeSlot_def slotWindows_def Let_def split: if_splits)

lemma late_night_window:
  "getCurrentTimeSlot tz date = Some LATE_NIGHT \<Longrightarrow>
   1350 \<le> currentTime tz date \<and> currentTime tz date < 1365"
  by (simp add: getCurrentTimeSlot_def slotWindows_def Let_def split: if_splits)

lemma next_day:
  assumes "1020 \<le> (n::int) mod 1440" and "k = 480 \<or> k = 420"
  shows "(n + k) div 1440 = n div 1440 + 1"
proof (rule int_div_pos_eq)
  show "n + k = 1440 * (n div 1440 + 1) + (n mod 1440 + k - 1440)"
    by (simp add: algebra_simps)
  show "0 \<le> n mod 1440 + k - 1440"
    using assms by auto
  have "n mod 1440 < 1440" by simp
  then show "n mod 1440 + k - 1440 < 1440"
    using assms by auto
qed

lemma utc_day_after:
  assumes z: "tz date = - 480 \<or> tz date = - 420"
    and w: "getCurrentTimeSlot tz date = Some EVENING \<or> getCurrentTimeSlot tz date = Some LATE_NIGHT"
  shows "utcDay date = zonedDay tz date + 1"
proof -
  from w evening_window [of tz date] late_night_window [of tz date]
  have "1020 \<le> currentTime tz date" by auto
  then have m: "1020 \<le> (toZonedTime tz date div 60000) mod 1440"
    by (simp only: currentTime_minutes)
  from z have k: "- tz date = 480 \<or> - tz date = 420" by auto
  from next_day [OF m k] show ?thesis
    by (simp add: utcDay_minutes [of date tz] zonedDay_minutes)
qed


lemma generated_ids:
  assumes "getIndividualReminders tz sys cfg sched date = Inr g"
  shows "list_all (\<lambda>r. rem_id r = toISODate date @ ''-'' @ slot r @ ''-'' @ medicationId r)
     (g_reminders g)"
proof (cases "getCurrentTimeSlot tz date")
  case None
  with assms show ?thesis by (auto simp: getIndividualReminders_def)
next
  case (Some slt)
  have "list_all (\<lambda>(i, r). rem_id r = toISODate date @ ''-'' @ slot r @ ''-'' @ medicationId r)
     (staggerTrace sys cfg sched slt date)"
    by (rule list_all_mono [OF trace_built]) auto
  then show ?thesis
    using returned_reminders [of tz date slt sys cfg sched g] Some assms
    by (simp add: list_all_iff split_beta)
qed

lemma getCurrentTimeSlot_eq:
  "getCurrentTimeSlot tz date =
     (let m = (toZonedTime tz date div 60000) mod 1440
      in if 510 \<le> m \<and> m < 525 then Some MORNING
         else if 660 \<le> m \<and> m < 675 then Some LATE_MORNING
         else if 840 \<le> m \<and> m < 855 then Some MIDDAY
         else if 1140 \<le> m \<and> m < 1155 then Some EVENING
         else if 1350 \<le> m \<and> m < 1365 then Some LATE_NIGHT
         else if m < 15 then Some NIGHT
         else None)"
proof -
  have "0 \<le> (toZonedTime tz date div 60000) mod 1440"
    and "(toZonedTime tz date div 60000) mod 1440 < 1440"
    by simp_all
  then show ?thesis
    by (simp add: getCurrentTimeSlot_def currentTime_minutes slotWindows_def Let_def)
qed

lemma claimSlot_eq:
  "claimSlot tz now s slt date =
     (let key = ''yuki:sent:'' @ yyyy_MM_dd (zonedDay tz date) @ '':'' @ slt
      in if upstash s
         then if kv_live now (sentKV s key) then (False, s)
              else (True, s\<lparr>sentKV := (sentKV s)(key \<mapsto>
                             \<lparr>kv_value = now, kv_expires = Some (now + 7200000)\<rparr>)\<rparr>)
         else if key \<in> sentSlots s then (False, s)
              else (True, s\<lparr>sentSlots := insert key (sentSlots s)\<rparr>))"
  by (simp add: claimSlot_def claimKey_def getTodayDateString_def setnx_def expire_def
      kv_live_def Let_def)

text \<open>
  Claim C10. The date in the id of every reminder \<^verbatim>\<open>getIndividualReminders\<close> returns is
  the UTC calendar date of the instant of generation. \<^verbatim>\<open>getCurrentTimeSlot\<close> finds the
  slot from the minute of the day on the wall clock of the zone of the reminders alone.
  \<^verbatim>\<open>claimSlot\<close> tests and, when it wins, writes one key, which carries the calendar
  date that zone has at the instant, and leaves the store as it was when it loses. With
  the zone 8 or 7 hours behind UTC, as Pacific time is, at every instant inside the
  evening or the late-night window the UTC date is the day after the zone's date: every
  reminder id carries the day after the date in the key under which the slot is claimed.
\<close>

theorem reminder_id_date_and_claim_key_date:
  "(getIndividualReminders tz sys cfg sched date = Inr g \<longrightarrow>
      list_all (\<lambda>r. rem_id r = yyyy_MM_dd (utcDay date) @ ''-'' @ slot r @ ''-'' @ medicationId r)
        (g_reminders g))
   \<and> getCurrentTimeSlot tz date =
       (let m = (toZonedTime tz date div 60000) mod 1440
        in if 510 \<le> m \<and> m < 525 then Some MORNING
           else if 660 \<le> m \<and> m < 675 then Some LATE_MORNING
           else if 840 \<le> m \<and> m < 855 then Some MIDDAY
           else if 1140 \<le> m \<and> m < 1155 then Some EVENING
           else if 1350 \<le> m \<and> m < 1365 then Some LATE_NIGHT
           else if m < 15 then Some NIGHT
           else None)
   \<and> claimSlot tz now s slt date =
       (let key = ''yuki:sent:'' @ yyyy_MM_dd (zonedDay tz date) @ '':'' @ slt
        in if upstash s
           then if kv_live now (sentKV s key) then (False, s)
                else (True, s\<lparr>sentKV := (sentKV s)(key \<mapsto>
                               \<lparr>kv_value = now, kv_expires = Some (now + 7200000)\<rparr>)\<rparr>)
           else if key \<in> sentSlots s then (False, s)
                else (True, s\<lparr>sentSlots := insert key (sentSlots s)\<rparr>))
   \<and> ((tz date = - 480 \<or> tz date = - 420)
        \<and> (getCurrentTimeSlot tz date = Some EVENING \<or> getCurrentTimeSlot tz date = Some LATE_NIGHT)
       \<longrightarrow> utcDay date = zonedDay tz date + 1)
   \<and> ((tz date = - 480 \<or> tz date = - 420)
        \<and> (getCurrentTimeSlot tz date = Some EVENING \<or> getCurrentTimeSlot tz date = Some LATE_NIGHT)
        \<and> getIndividualReminders tz sys cfg sched date = Inr g
       \<longrightarrow> list_all (\<lambda>r. rem_id r =
                yyyy_MM_dd (zonedDay tz date + 1) @ ''-'' @ slot r @ ''-'' @ medicationId r)
             (g_reminders g))"
proof (intro conjI impI)
  assume "getIndividualReminders tz sys cfg sched date = Inr g"
  then show "list_all (\<lambda>r. rem_id r = yyyy_MM_dd (utcDay date) @ ''-'' @ slot r @ ''-'' @ medicationId r)
     (g_reminders g)"
    using generated_ids [of tz sys cfg sched date g] by (simp only: toISODate_def)
next
  show "getCurrentTimeSlot tz date =
       (let m = (toZonedTime tz date div 60000) mod 1440
        in if 510 \<le> m \<and> m < 525 then Some MORNING
           else if 660 \<le> m \<and> m < 675 then Some LATE_MORNING
           else if 840 \<le> m \<and> m < 855 then Some MIDDAY
           else if 1140 \<le> m \<and> m < 1155 then Some EVENING
           else if 1350 \<le> m \<and> m < 1365 then Some LATE_NIGHT
           else if m < 15 then Some NIGHT
           else None)"
    by (rule getCurrentTimeSlot_eq)
  show "claimSlot tz now s slt date =
       (let key = ''yuki:sent:'' @ yyyy_MM_dd (zonedDay tz date) @ '':'' @ slt
        in if upstash s
           then if kv_live now (sentKV s key) then (False, s)
                else (True, s\<lparr>sentKV := (sentKV s)(key \<mapsto>
                               \<lparr>kv_value = now, kv_expires = Some (now + 7200000)\<rparr>)\<rparr>)
           else if key \<in> sentSlots s then (False, s)
                else (True, s\<lparr>sentSlots := insert key (sentSlots s)\<rparr>))"
    by (rule claimSlot_eq)
next
  assume "(tz date = - 480 \<or> tz date = - 420)
        \<and> (getCurrentTimeSlot tz date = Some EVENING \<or> getCurrentTimeSlot tz date = Some LATE_NIGHT)"
  then show "utcDay date = zonedDay tz date + 1"
    using utc_day_after [of tz date] by blast
next
  assume a: "(tz date = - 480 \<or> tz date = - 420)
        \<and> (getCurrentTimeSlot tz date = Some EVENING \<or> getCurrentTimeSlot tz date = Some LATE_NIGHT)
        \<and> getIndividualReminders tz sys cfg sched date = Inr g"
  then have d: "utcDay date = zonedDay tz date + 1"
    using utc_day_after [of tz date] by blast
  from a have "list_all (\<lambda>r. rem_id r = toISODate date @ ''-'' @ slot r @ ''-'' @ medicationId r)
     (g_reminders g)"
    using generated_ids [of tz sys cfg sched date g] by blast
  then show "list_all (\<lambda>r. rem_id r =
                yyyy_MM_dd (zonedDay tz date + 1) @ ''-'' @ slot r @ ''-'' @ medicationId r)
             (g_reminders g)"
    by (simp only: toISODate_def d)
qed

theorem reminder_id_date_and_claim_key_date_witness:
  "(PST 1768273500000 = - 480 \<or> PST 1768273500000 = - 420)
   \<and> getCurrentTimeSlot PST 1768273500000 = Some EVENING
   \<and> utcDay 1768273500000 = zonedDay PST 1768273500000 + 1
   \<and> yyyy_MM_dd (zonedDay PST 1768273500000) = ''2026-01-12''
   \<and> map_sum id (\<lambda>g. map rem_id (g_reminders g))
        (getIndividualReminders PST 0 catalog (\<lambda>i. None) 1768273500000) =
       Inr [''2026-01-13-EVENING-ofloxacin'', ''2026-01-13-EVENING-plasma'',
            ''2026-01-13-EVENING-amniotic'', ''2026-01-13-EVENING-atropine'',
            ''2026-01-13-EVENING-prednisolone-eye'', ''2026-01-13-EVENING-tacrolimus-cyclosporine'',
            ''2026-01-13-EVENING-amoxicillin'']
   \<and> (case getIndividualReminders PST 0 catalog (\<lambda>i. None) 1768273500000 of
         Inl e \<Rightarrow> False
       | Inr g \<Rightarrow>
          list_all (\<lambda>r. rem_id r =
              yyyy_MM_dd (zonedDay PST 1768273500000 + 1) @ ''-'' @ slot r @ ''-'' @ medicationId r)
            (g_reminders g))
   \<and> fst (claimSlot PST 1768273500000 redisStore ''EVENING'' 1768273500000)
   \<and> sentKV (snd (claimSlot PST 1768273500000 redisStore ''EVENING'' 1768273500000))
        ''yuki:sent:2026-01-12:EVENING'' =
       Some \<lparr>kv_value = 1768273500000, kv_expires = Some 1768280700000\<rparr>
   \<and> sentKV (snd (claimSlot PST 1768273500000 redisStore ''EVENING'' 1768273500000))
        ''yuki:sent:2026-01-13:EVENING'' = None
   \<and> sentSlots (snd (claimSlot PST 1768273500000 memoryStore ''EVENING'' 1768273500000)) =
       {''yuki:sent:2026-01-12:EVENING''}"
proof -
  have z: "PST 1768273500000 = - 480 \<or> PST 1768273500000 = - 420"
    by (simp add: PST_def)
  have i: "map_sum id (\<lambda>g. map rem_id (g_reminders g))
        (getIndividualReminders PST 0 catalog (\<lambda>i. None) 1768273500000) =
       Inr [''2026-01-13-EVENING-ofloxacin'', ''2026-01-13-EVENING-plasma'',
            ''2026-01-13-EVENING-amniotic'', ''2026-01-13-EVENING-atropine'',
            ''2026-01-13-EVENING-prednisolone-eye'', ''2026-01-13-EVENING-tacrolimus-cyclosporine'',
            ''2026-01-13-EVENING-amoxicillin'']"
    by code_simp
  then obtain g where g: "getIndividualReminders PST 0 catalog (\<lambda>i. None) 1768273500000 = Inr g"
    by (cases "getIndividualReminders PST 0 catalog (\<lambda>i. None) 1768273500000") simp_all
  have y: "yyyy_MM_dd (zonedDay PST 1768273500000) = ''2026-01-12''"
    by code_simp
  have m: "(toZonedTime PST 1768273500000 div 60000) mod 1440 = 1145"
    by code_simp
  note r = reminder_id_date_and_claim_key_date
    [where tz = PST and sys = 0 and cfg = catalog and sched = "\<lambda>i. None" and date = 1768273500000
       and g = g and now = 1768273500000 and s = redisStore and slt = "''EVENING''"]
  note t = reminder_id_date_and_claim_key_date
    [where tz = PST and sys = 0 and cfg = catalog and sched = "\<lambda>i. None" and date = 1768273500000
       and g = g and now = 1768273500000 and s = memoryStore and slt = "''EVENING''"]
  from r have "getCurrentTimeSlot PST 1768273500000 =
       (let m = (toZonedTime PST 1768273500000 div 60000) mod 1440
        in if 510 \<le> m \<and> m < 525 then Some MORNING
           else if 660 \<le> m \<and> m < 675 then Some LATE_MORNING
           else if 840 \<le> m \<and> m < 855 then Some MIDDAY
           else if 1140 \<le> m \<and> m < 1155 then Some EVENING
           else if 1350 \<le> m \<and> m < 1365 then Some LATE_NIGHT
           else if m < 15 then Some NIGHT
           else None)"
    by blast
  then have s: "getCurrentTimeSlot PST 1768273500000 = Some EVENING"
    by (simp add: m)
  from r z s have d: "utcDay 1768273500000 = zonedDay PST 1768273500000 + 1"
    by blast
  from r z s g have "list_all (\<lambda>r. rem_id r =
              yyyy_MM_dd (zonedDay PST 1768273500000 + 1) @ ''-'' @ slot r @ ''-'' @ medicationId r)
            (g_reminders g)"
    by blast
  then have l: "case getIndividualReminders PST 0 catalog (\<lambda>i. None) 1768273500000 of
         Inl e \<Rightarrow> False
       | Inr g \<Rightarrow>
          list_all (\<lambda>r. rem_id r =
              yyyy_MM_dd (zonedDay PST 1768273500000 + 1) @ ''-'' @ slot r @ ''-'' @ medicationId r)
            (g_reminders g)"
    by (simp add: g)
  from r have "claimSlot PST 1768273500000 redisStore ''EVENING'' 1768273500000 =
       (let key = ''yuki:sent:'' @ yyyy_MM_dd (zonedDay PST 1768273500000) @ '':'' @ ''EVENING''
        in if upstash redisStore
           then if kv_live 1768273500000 (sentKV redisStore key) then (False, redisStore)
                else (True, redisStore\<lparr>sentKV := (sentKV redisStore)(key \<mapsto>
                               \<lparr>kv_value = 1768273500000, kv_expires = Some (1768273500000 + 7200000)\<rparr>)\<rparr>)
           else if key \<in> sentSlots redisStore then (False, redisStore)
                else (True, redisStore\<lparr>sentSlots := insert key (sentSlots redisStore)\<rparr>))"
    by blast
  then have k: "fst (claimSlot PST 1768273500000 redisStore ''EVENING'' 1768273500000)
   \<and> sentKV (snd (claimSlot PST 1768273500000 redisStore ''EVENING'' 1768273500000))
        ''yuki:sent:2026-01-12:EVENING'' =
       Some \<lparr>kv_value = 1768273500000, kv_expires = Some 1768280700000\<rparr>
   \<and> sentKV (snd (claimSlot PST 1768273500000 redisStore ''EVENING'' 1768273500000))
        ''yuki:sent:2026-01-13:EVENING'' = None"
    by (simp add: y redisStore_def memoryStore_def kv_live_def)
  from t have "claimSlot PST 1768273500000 memoryStore ''EVENING'' 1768273500000 =
       (let key = ''yuki:sent:'' @ yyyy_MM_dd (zonedDay PST 1768273500000) @ '':'' @ ''EVENING''
        in if upstash memoryStore
           then if kv_live 1768273500000 (sentKV memoryStore key) then (False, memoryStore)
                else (True, memoryStore\<lparr>sentKV := (sentKV memoryStore)(key \<mapsto>
                               \<lparr>kv_value = 1768273500000, kv_expires = Some (1768273500000 + 7200000)\<rparr>)\<rparr>)
           else if key \<in> sentSlots memoryStore then (False, memoryStore)
                else (True, memoryStore\<lparr>sentSlots := insert key (sentSlots memoryStore)\<rparr>))"
    by blast
  then have n: "sentSlots (snd (claimSlot PST 1768273500000 memoryStore ''EVENING'' 1768273500000)) =
       {''yuki:sent:2026-01-12:EVENING''}"
    by (simp add: y memoryStore_def)
  from z s d y i l k n show ?thesis
    by blast
qed

lemma getAtropineSlots_same_day:
  assumes d: "localDay sys t1 = localDay sys t2"
  shows "getAtropineSlots sys cfg t1 = getAtropineSlots sys cfg t2"
  unfolding getAtropineSlots_eq d ..

lemma isMedicationDue_same_day:
  assumes d: "localDay sys t1 = localDay sys t2"
  shows "isMedicationDue sys cfg sched med slt t1 = isMedicationDue sys cfg sched med slt t2"
  unfolding isMedicationDue_eq getAtropineSlots_same_day [OF d, of cfg] d ..

lemma dueChecks_same_day:
  assumes d: "localDay sys t1 = localDay sys t2"
  shows "dueChecks sys cfg sched slt t1 = dueChecks sys cfg sched slt t2"
  unfolding dueChecks_def isMedicationDue_same_day [OF d] ..

lemma dueMeds_same_day:
  assumes d: "localDay sys t1 = localDay sys t2"
  shows "dueMeds sys cfg sched slt t1 = dueMeds sys cfg sched slt t2"
  unfolding dueMeds_def dueChecks_same_day [OF d] ..

lemma getDayNumber_same_day:
  assumes d: "localDay sys t1 = localDay sys t2"
  shows "getDayNumber sys cfg t1 = getDayNumber sys cfg t2"
  unfolding getDayNumber_days d ..

lemma staggerTrace_same_day:
  assumes u: "utcDay t1 = utcDay t2" and d: "localDay sys t1 = localDay sys t2"
  shows "staggerTrace sys cfg sched slt t1 = staggerTrace sys cfg sched slt t2"
  unfolding staggerTrace_def toISODate_def u dueMeds_same_day [OF d] getDayNumber_same_day [OF d] ..

lemma getIndividualReminders_same_day:
  assumes c: "getCurrentTimeSlot tz t1 = getCurrentTimeSlot tz t2"
    and u: "utcDay t1 = utcDay t2" and d: "localDay sys t1 = localDay sys t2"
  shows "getIndividualReminders tz sys cfg sched t1 = getIndividualReminders tz sys cfg sched t2"
  unfolding getIndividualReminders_def c staggerTrace_same_day [OF u d] getDayNumber_same_day [OF d]
    dueChecks_same_day [OF d] dueMeds_same_day [OF d] ..

lemma addPendingReminders_again:
  assumes "set (map rem_id g2) \<subseteq> set (map rem_id g1)"
  shows "fst (addPendingReminders (snd (addPendingReminders s g1)) g2) =
         fst (addPendingReminders s g1)"
proof -
  let ?P = "pending s @ filter (\<lambda>r. rem_id r \<notin> set (map rem_id (pending s))) g1"
  have "set (map rem_id g1) \<subseteq> set (map rem_id ?P)"
    by auto
  with assms have "set (map rem_id g2) \<subseteq> set (map rem_id ?P)"
    by (rule subset_trans)
  then have "filter (\<lambda>r. rem_id r \<notin> set (map rem_id ?P)) g2 = []"
    by (auto simp: filter_empty_conv)
  then show ?thesis
    by (simp add: addPendingReminders_eq)
qed

lemma addPendingReminders_length:
  "length (fst (addPendingReminders s g)) \<le> length (pending s) + length g"
  by (simp add: addPendingReminders_eq)

text \<open>
  Claim C4. Two runs of the generator at instants that resolve to the same slot and fall
  on the same calendar day, in UTC and in the zone of the process, with the custom
  schedules unchanged, have the same outcome: the same reminders with the same ids, or
  the same exception. Each id of a batch returned is the UTC date, a hyphen, the slot, a
  hyphen and the medication id. When a second
  batch has the ids of a first, adding the second after the first leaves the pending list
  as the first left it, so it has grown by no more than the length of one batch.
\<close>

theorem regeneration_is_idempotent:
  "(getCurrentTimeSlot tz t1 = getCurrentTimeSlot tz t2 \<and> utcDay t1 = utcDay t2
      \<and> localDay sys t1 = localDay sys t2 \<longrightarrow>
      getIndividualReminders tz sys cfg sched t1 = getIndividualReminders tz sys cfg sched t2)
   \<and> (getIndividualReminders tz sys cfg sched t1 = Inr g \<longrightarrow>
        list_all (\<lambda>r. rem_id r = toISODate t1 @ ''-'' @ slot r @ ''-'' @ medicationId r)
          (g_reminders g))
   \<and> (map rem_id g2 = map rem_id g1 \<longrightarrow>
        fst (addPendingReminders (snd (addPendingReminders s g1)) g2) =
          fst (addPendingReminders s g1)
        \<and> length (fst (addPendingReminders (snd (addPendingReminders s g1)) g2))
            \<le> length (pending s) + length g1)"
proof (intro conjI impI)
  assume "getCurrentTimeSlot tz t1 = getCurrentTimeSlot tz t2 \<and> utcDay t1 = utcDay t2
      \<and> localDay sys t1 = localDay sys t2"
  then show "getIndividualReminders tz sys cfg sched t1 = getIndividualReminders tz sys cfg sched t2"
    using getIndividualReminders_same_day [of tz t1 t2 sys cfg sched] by blast
next
  assume "getIndividualReminders tz sys cfg sched t1 = Inr g"
  then show "list_all (\<lambda>r. rem_id r = toISODate t1 @ ''-'' @ slot r @ ''-'' @ medicationId r)
       (g_reminders g)"
    by (rule generated_ids)
next
  assume e: "map rem_id g2 = map rem_id g1"
  then have "set (map rem_id g2) \<subseteq> set (map rem_id g1)"
    by (simp only: subset_refl)
  then have a: "fst (addPendingReminders (snd (addPendingReminders s g1)) g2) =
          fst (addPendingReminders s g1)"
    by (rule addPendingReminders_again)
  from a show "fst (addPendingReminders (snd (addPendingReminders s g1)) g2) =
          fst (addPendingReminders s g1)" .
  from a addPendingReminders_length [of s g1]
  show "length (fst (addPendingReminders (snd (addPendingReminders s g1)) g2))
            \<le> length (pending s) + length g1"
    by simp
qed


theorem regeneration_is_idempotent_witness:
  "getCurrentTimeSlot PST 1768273500000 = getCurrentTimeSlot PST 1768273800000
   \<and> utcDay 1768273500000 = utcDay 1768273800000
   \<and> localDay 0 1768273500000 = localDay 0 1768273800000
   \<and> getIndividualReminders PST 0 catalog (\<lambda>i. None) 1768273500000 =
       getIndividualReminders PST 0 catalog (\<lambda>i. None) 1768273800000
   \<and> map_sum id (\<lambda>g. map rem_id (g_reminders g))
        (getIndividualReminders PST 0 catalog (\<lambda>i. None) 1768273500000) =
       Inr [''2026-01-13-EVENING-ofloxacin'', ''2026-01-13-EVENING-plasma'',
            ''2026-01-13-EVENING-amniotic'', ''2026-01-13-EVENING-atropine'',
            ''2026-01-13-EVENING-prednisolone-eye'', ''2026-01-13-EVENING-tacrolimus-cyclosporine'',
            ''2026-01-13-EVENING-amoxicillin'']
   \<and> (case getIndividualReminders PST 0 catalog (\<lambda>i. None) 1768273500000 of
         Inl e \<Rightarrow> False
       | Inr g1 \<Rightarrow>
          list_all (\<lambda>r. rem_id r = toISODate 1768273500000 @ ''-'' @ slot r @ ''-'' @ medicationId r)
            (g_reminders g1)
          \<and> (case getIndividualReminders PST 0 catalog (\<lambda>i. None) 1768273800000 of
                Inl e \<Rightarrow> False
              | Inr g2 \<Rightarrow>
                 fst (addPendingReminders (snd (addPendingReminders memoryStore (g_reminders g1)))
                        (g_reminders g2)) =
                   fst (addPendingReminders memoryStore (g_reminders g1))
                 \<and> length (fst (addPendingReminders
                        (snd (addPendingReminders memoryStore (g_reminders g1))) (g_reminders g2))) \<le> 7))"
proof -
  have i: "map_sum id (\<lambda>g. map rem_id (g_reminders g))
        (getIndividualReminders PST 0 catalog (\<lambda>i. None) 1768273500000) =
       Inr [''2026-01-13-EVENING-ofloxacin'', ''2026-01-13-EVENING-plasma'',
            ''2026-01-13-EVENING-amniotic'', ''2026-01-13-EVENING-atropine'',
            ''2026-01-13-EVENING-prednisolone-eye'', ''2026-01-13-EVENING-tacrolimus-cyclosporine'',
            ''2026-01-13-EVENING-amoxicillin'']"
    by code_simp
  then obtain g where g: "getIndividualReminders PST 0 catalog (\<lambda>i. None) 1768273500000 = Inr g"
    by (cases "getIndividualReminders PST 0 catalog (\<lambda>i. None) 1768273500000") simp_all
  note t = regeneration_is_idempotent
    [where tz = PST and ?t1.0 = 1768273500000 and ?t2.0 = 1768273800000 and sys = 0
       and cfg = catalog and sched = "\<lambda>i. None" and g = g
       and ?g2.0 = "g_reminders g" and ?g1.0 = "g_reminders g" and s = memoryStore]
  have c: "getCurrentTimeSlot PST 1768273500000 = getCurrentTimeSlot PST 1768273800000"
    by code_simp
  have u: "utcDay 1768273500000 = utcDay 1768273800000"
    by code_simp
  have d: "localDay 0 1768273500000 = localDay 0 1768273800000"
    by code_simp
  from t c u d have e: "getIndividualReminders PST 0 catalog (\<lambda>i. None) 1768273500000 =
       getIndividualReminders PST 0 catalog (\<lambda>i. None) 1768273800000"
    by blast
  from e g have g': "getIndividualReminders PST 0 catalog (\<lambda>i. None) 1768273800000 = Inr g"
    by simp
  from t g have f: "list_all (\<lambda>r. rem_id r = toISODate 1768273500000 @ ''-'' @ slot r @ ''-'' @ medicationId r)
            (g_reminders g)"
    by blast
  from i g have "map rem_id (g_reminders g) =
       [''2026-01-13-EVENING-ofloxacin'', ''2026-01-13-EVENING-plasma'',
        ''2026-01-13-EVENING-amniotic'', ''2026-01-13-EVENING-atropine'',
        ''2026-01-13-EVENING-prednisolone-eye'', ''2026-01-13-EVENING-tacrolimus-cyclosporine'',
        ''2026-01-13-EVENING-amoxicillin'']"
    by simp
  from arg_cong [OF this, of length] have l: "length (g_reminders g) = 7"
    by simp
  have p: "length (pending memoryStore) = 0"
    by (simp add: memoryStore_def)
  from t have a: "fst (addPendingReminders (snd (addPendingReminders memoryStore (g_reminders g)))
           (g_reminders g)) =
       fst (addPendingReminders memoryStore (g_reminders g))"
    by blast
  from t have "length (fst (addPendingReminders (snd (addPendingReminders memoryStore (g_reminders g)))
           (g_reminders g)))
      \<le> length (pending memoryStore) + length (g_reminders g)"
    by blast
  then have b: "length (fst (addPendingReminders (snd (addPendingReminders memoryStore (g_reminders g)))
           (g_reminders g))) \<le> 7"
    by (simp add: l p)
  from f a b have "case getIndividualReminders PST 0 catalog (\<lambda>i. None) 1768273500000 of
         Inl e \<Rightarrow> False
       | Inr g1 \<Rightarrow>
          list_all (\<lambda>r. rem_id r = toISODate 1768273500000 @ ''-'' @ slot r @ ''-'' @ medicationId r)
            (g_reminders g1)
          \<and> (case getIndividualReminders PST 0 catalog (\<lambda>i. None) 1768273800000 of
                Inl e \<Rightarrow> False
              | Inr g2 \<Rightarrow>
                 fst (addPendingReminders (snd (addPendingReminders memoryStore (g_reminders g1)))
                        (g_reminders g2)) =
                   fst (addPendingReminders memoryStore (g_reminders g1))
                 \<and> length (fst (addPendingReminders
                        (snd (addPendingReminders memoryStore (g_reminders g1))) (g_reminders g2))) \<le> 7)"
    by (simp add: g g')
  with c u d e i show ?thesis
    by blast
qed

end
